theory Spec2Isabelle
  imports Main
begin

section \<open>Data model (webapp/frontend/src/types/index.ts)\<close>

text \<open>
  The interfaces of \<^verbatim>\<open>types/index.ts\<close> become records. Field names are global in
  HOL, so a field whose name is used by two interfaces carries a prefix in the later one.
  JavaScript numbers are carried as \<open>int\<close>: none of the modelled functions computes
  with them. A value read through \<^verbatim>\<open>any\<close> is modelled at its declared type.
\<close>

record PipelineStatus =
  active :: bool
  last_run :: "string option"
  videos_processed :: int
  pipeline_status :: string

record PipelineStatus_partial =
  p_active :: "bool option"
  p_last_run :: "string option option"
  p_videos_processed :: "int option"
  p_pipeline_status :: "string option"

record Version =
  version_id :: string
  version_status :: string
  version_url :: "string option"

record Video =
  success :: bool
  filename :: "string option"
  filepath :: "string option"
  video_duration :: "int option"
  resolution :: "string option"
  format :: "string option"
  generated_at :: "string option"
  mock_mode :: "bool option"

record Metadata =
  title :: string
  description :: string
  tags :: "string list"
  category :: string

record AIJob =
  job_id :: string
  status :: string
  prompt :: "string option"
  base_prompt :: string
  orientation :: string
  duration :: string
  style :: string
  camera_view :: string
  background :: string
  lighting :: "string option"
  color_palette :: "string option"
  weather :: "string option"
  time_of_day :: "string option"
  additional_details :: "string option"
  started_at :: string
  completed_at :: "string option"
  error :: "string option"
  versions :: "Version list option"
  selected_version :: "int option"
  video :: "Video option"
  metadata :: "Metadata option"
  thumbnail :: "string option"
  duration_seconds :: "int option"

text \<open>
  \<^verbatim>\<open>Partial<AIJob>\<close>: every key may be absent (\<open>None\<close>). It is the type of the
  \<^verbatim>\<open>updates\<close> argument of \<^verbatim>\<open>updateAIJob\<close>, and the type at which the
  \<^verbatim>\<open>result\<close> payload of a message is read when it is merged into a job.
\<close>

record AIJob_partial =
  u_job_id :: "string option"
  u_status :: "string option"
  u_prompt :: "string option"
  u_base_prompt :: "string option"
  u_orientation :: "string option"
  u_duration :: "string option"
  u_style :: "string option"
  u_camera_view :: "string option"
  u_background :: "string option"
  u_lighting :: "string option"
  u_color_palette :: "string option"
  u_weather :: "string option"
  u_time_of_day :: "string option"
  u_additional_details :: "string option"
  u_started_at :: "string option"
  u_completed_at :: "string option"
  u_error :: "string option"
  u_versions :: "Version list option"
  u_selected_version :: "int option"
  u_video :: "Video option"
  u_metadata :: "Metadata option"
  u_thumbnail :: "string option"
  u_duration_seconds :: "int option"

record AIStatus =
  openai_available :: bool
  pil_available :: bool
  sora_enabled :: bool
  gpt_enabled :: bool
  dalle_enabled :: bool
  config_loaded :: bool
  ai_error :: "string option"

record WebSocketMessage =
  msg_type :: string
  msg_data :: "PipelineStatus_partial option"
  msg_job_id :: "string option"
  msg_status :: "string option"
  msg_message :: "string option"
  msg_result :: "AIJob_partial option"

datatype subscription_tier = Free | Pro | Enterprise

record User =
  user_id :: string
  email :: string
  user_name :: string
  avatar :: "string option"
  created_at :: string
  subscription :: "subscription_tier option"

record AuthState =
  user :: "User option"
  token :: "string option"
  isAuthenticated :: bool
  isLoading :: bool

section \<open>The store (useAppStore, in webapp/frontend/src/App.tsx)\<close>

datatype theme = Light | Dark

record AppState =
  auth :: AuthState
  pipelineStatus :: PipelineStatus
  aiJobs :: "AIJob list"
  aiStatus :: "AIStatus option"
  wsConnected :: bool
  sidebarOpen :: bool
  theme :: theme

text \<open>Object spread \<^verbatim>\<open>{ ...old, ...updates }\<close>, one key at a time: a key present in
  the updates replaces the old value, an absent key keeps it.\<close>

definition spread :: "'a \<Rightarrow> 'a option \<Rightarrow> 'a" where
  "spread old new = (case new of None \<Rightarrow> old | Some v \<Rightarrow> v)"

definition spread_opt :: "'a option \<Rightarrow> 'a option \<Rightarrow> 'a option" where
  "spread_opt old new = (case new of None \<Rightarrow> old | Some v \<Rightarrow> Some v)"

definition spread_PipelineStatus :: "PipelineStatus \<Rightarrow> PipelineStatus_partial \<Rightarrow> PipelineStatus" where
  "spread_PipelineStatus p u =
     \<lparr> active = spread (active p) (p_active u),
       last_run = spread (last_run p) (p_last_run u),
       videos_processed = spread (videos_processed p) (p_videos_processed u),
       pipeline_status = spread (pipeline_status p) (p_pipeline_status u) \<rparr>"

definition spread_AIJob :: "AIJob \<Rightarrow> AIJob_partial \<Rightarrow> AIJob" where
  "spread_AIJob job u =
     \<lparr> job_id = spread (job_id job) (u_job_id u),
       status = spread (status job) (u_status u),
       prompt = spread_opt (prompt job) (u_prompt u),
       base_prompt = spread (base_prompt job) (u_base_prompt u),
       orientation = spread (orientation job) (u_orientation u),
       duration = spread (duration job) (u_duration u),
       style = spread (style job) (u_style u),
       camera_view = spread (camera_view job) (u_camera_view u),
       background = spread (background job) (u_background u),
       lighting = spread_opt (lighting job) (u_lighting u),
       color_palette = spread_opt (color_palette job) (u_color_palette u),
       weather = spread_opt (weather job) (u_weather u),
       time_of_day = spread_opt (time_of_day job) (u_time_of_day u),
       additional_details = spread_opt (additional_details job) (u_additional_details u),
       started_at = spread (started_at job) (u_started_at u),
       completed_at = spread_opt (completed_at job) (u_completed_at u),
       error = spread_opt (error job) (u_error u),
       versions = spread_opt (versions job) (u_versions u),
       selected_version = spread_opt (selected_version job) (u_selected_version u),
       video = spread_opt (video job) (u_video u),
       metadata = spread_opt (metadata job) (u_metadata u),
       thumbnail = spread_opt (thumbnail job) (u_thumbnail u),
       duration_seconds = spread_opt (duration_seconds job) (u_duration_seconds u) \<rparr>"

text \<open>The store's actions. Each is \<^verbatim>\<open>set((state) => ({ key: ... }))\<close>: the named key
  is replaced and every other key of the state is kept.\<close>

definition setPipelineStatus :: "PipelineStatus_partial \<Rightarrow> AppState \<Rightarrow> AppState" where
  "setPipelineStatus statusUpdates state =
     state\<lparr>pipelineStatus := spread_PipelineStatus (pipelineStatus state) statusUpdates\<rparr>"

definition addAIJob :: "AIJob \<Rightarrow> AppState \<Rightarrow> AppState" where
  "addAIJob job state = state\<lparr>aiJobs := job # aiJobs state\<rparr>"

definition updateAIJob :: "string \<Rightarrow> AIJob_partial \<Rightarrow> AppState \<Rightarrow> AppState" where
  "updateAIJob jobId updates state =
     state\<lparr>aiJobs := map (\<lambda>job. if job_id job = jobId then spread_AIJob job updates else job)
                         (aiJobs state)\<rparr>"

definition setWsConnected :: "bool \<Rightarrow> AppState \<Rightarrow> AppState" where
  "setWsConnected connected state = state\<lparr>wsConnected := connected\<rparr>"


section \<open>The WebSocket hook (useWebSocket, in unnamed/part_000)\<close>

text \<open>
  The hook's refs, the store, and what the hook does to the outside: toasts shown, console
  lines written, frames sent on the socket, sockets constructed (each by its URL) and
  timers set. \<open>ws\<close> is \<^verbatim>\<open>ws.current\<close>:
  \<open>None\<close> for \<^verbatim>\<open>null\<close>, else the socket, of which the hook reads only the
  \<^verbatim>\<open>readyState\<close>. A timer handle is a number, handed out in order (\<open>next_timer\<close> is
  the next one); the only callback ever scheduled is \<^verbatim>\<open>connect\<close>, so a pending timer
  is its handle and its delay in milliseconds. A console line keeps its level and its first
  argument.
\<close>

datatype toast_kind = toast_error | toast_success | toast_plain

datatype console_level = console_log | console_warn | console_error

datatype ready_state = CONNECTING | OPEN | CLOSING | CLOSED

record world =
  store :: AppState
  ws :: "ready_state option"
  reconnectAttempts :: nat
  reconnectTimeout :: "nat option"
  timers :: "(nat \<times> nat) list"
  next_timer :: nat
  toasts :: "(toast_kind \<times> string) list"
  console :: "(console_level \<times> string) list"
  sent :: "string list"
  sockets :: "string list"

definition WS_URL :: string where
  "WS_URL = ''ws://127.0.0.1:8000/ws''"

definition RECONNECT_INTERVAL :: nat where
  "RECONNECT_INTERVAL = 5000"

definition MAX_RECONNECT_ATTEMPTS :: nat where
  "MAX_RECONNECT_ATTEMPTS = 10"

definition toast :: "toast_kind \<Rightarrow> string \<Rightarrow> world \<Rightarrow> world" where
  "toast k m w = w\<lparr>toasts := toasts w @ [(k, m)]\<rparr>"

definition console_write :: "console_level \<Rightarrow> string \<Rightarrow> world \<Rightarrow> world" where
  "console_write l m w = w\<lparr>console := console w @ [(l, m)]\<rparr>"

definition setTimeout :: "nat \<Rightarrow> world \<Rightarrow> nat \<times> world" where
  "setTimeout delay w =
     (next_timer w,
      w\<lparr>timers := timers w @ [(next_timer w, delay)], next_timer := Suc (next_timer w)\<rparr>)"

definition clearTimeout :: "nat \<Rightarrow> world \<Rightarrow> world" where
  "clearTimeout h w = w\<lparr>timers := filter (\<lambda>t. fst t \<noteq> h) (timers w)\<rparr>"

text \<open>Decimal rendering of a number inside a template string.\<close>

fun show_nat :: "nat \<Rightarrow> string" where
  "show_nat n =
     (if n < 10 then [char_of (48 + n)]
      else show_nat (n div 10) @ [char_of (48 + n mod 10)])"

declare show_nat.simps [simp del]

text \<open>\<^verbatim>\<open>String.prototype.includes\<close>: the second string occurs in the first.\<close>

fun startsWith :: "string \<Rightarrow> string \<Rightarrow> bool" where
  "startsWith s [] = True"
| "startsWith [] (c # cs) = False"
| "startsWith (x # xs) (c # cs) = (x = c \<and> startsWith xs cs)"

fun str_includes :: "string \<Rightarrow> string \<Rightarrow> bool" where
  "str_includes [] t = (t = [])"
| "str_includes (x # xs) t = (startsWith (x # xs) t \<or> str_includes xs t)"

text \<open>\<^verbatim>\<open>s || d\<close> on an optional string: the empty string is falsy.\<close>

definition or_default :: "string option \<Rightarrow> string \<Rightarrow> string" where
  "or_default s d = (case s of None \<Rightarrow> d | Some t \<Rightarrow> if t = [] then d else t)"

text \<open>\<^verbatim>\<open>message.result?.key\<close>.\<close>

definition result_key :: "AIJob_partial option \<Rightarrow> (AIJob_partial \<Rightarrow> string option) \<Rightarrow> string option" where
  "result_key r key = (case r of None \<Rightarrow> None | Some x \<Rightarrow> key x)"

text \<open>The object literal \<^verbatim>\<open>newJob\<close> of the \<^verbatim>\<open>ai_job\<close> case; \<open>now\<close> is
  \<^verbatim>\<open>new Date().toISOString()\<close>.\<close>

definition newJob :: "string \<Rightarrow> WebSocketMessage \<Rightarrow> AIJob" where
  "newJob now message =
     \<lparr> job_id = or_default (msg_job_id message) [],
       status = ''starting'',
       prompt = Some (or_default (result_key (msg_result message) u_prompt) []),
       base_prompt = or_default (result_key (msg_result message) u_prompt) [],
       orientation = or_default (result_key (msg_result message) u_orientation) ''landscape'',
       duration = or_default (result_key (msg_result message) u_duration) ''10s'',
       style = or_default (result_key (msg_result message) u_style) ''cinematic'',
       camera_view = or_default (result_key (msg_result message) u_camera_view) ''wide'',
       background = or_default (result_key (msg_result message) u_background) ''natural'',
       lighting = None,
       color_palette = None,
       weather = None,
       time_of_day = None,
       additional_details = None,
       started_at = now,
       completed_at = None,
       error = None,
       versions = None,
       selected_version = None,
       video = None,
       metadata = None,
       thumbnail = None,
       duration_seconds = None \<rparr>"

text \<open>The object literal \<^verbatim>\<open>{ status: message.status }\<close>.\<close>

definition status_updates :: "string \<Rightarrow> AIJob_partial" where
  "status_updates st =
     \<lparr> u_job_id = None, u_status = Some st, u_prompt = None, u_base_prompt = None,
       u_orientation = None, u_duration = None, u_style = None, u_camera_view = None,
       u_background = None, u_lighting = None, u_color_palette = None, u_weather = None,
       u_time_of_day = None, u_additional_details = None, u_started_at = None,
       u_completed_at = None, u_error = None, u_versions = None, u_selected_version = None,
       u_video = None, u_metadata = None, u_thumbnail = None, u_duration_seconds = None \<rparr>"

text \<open>\<^verbatim>\<open>Object.assign(updates, message.result)\<close>: every key of the result, the
  keys \<^verbatim>\<open>status\<close> and \<^verbatim>\<open>job_id\<close> included, replaces the key of the updates.\<close>

definition object_assign :: "AIJob_partial \<Rightarrow> AIJob_partial \<Rightarrow> AIJob_partial" where
  "object_assign updates r =
     \<lparr> u_job_id = spread_opt (u_job_id updates) (u_job_id r),
       u_status = spread_opt (u_status updates) (u_status r),
       u_prompt = spread_opt (u_prompt updates) (u_prompt r),
       u_base_prompt = spread_opt (u_base_prompt updates) (u_base_prompt r),
       u_orientation = spread_opt (u_orientation updates) (u_orientation r),
       u_duration = spread_opt (u_duration updates) (u_duration r),
       u_style = spread_opt (u_style updates) (u_style r),
       u_camera_view = spread_opt (u_camera_view updates) (u_camera_view r),
       u_background = spread_opt (u_background updates) (u_background r),
       u_lighting = spread_opt (u_lighting updates) (u_lighting r),
       u_color_palette = spread_opt (u_color_palette updates) (u_color_palette r),
       u_weather = spread_opt (u_weather updates) (u_weather r),
       u_time_of_day = spread_opt (u_time_of_day updates) (u_time_of_day r),
       u_additional_details = spread_opt (u_additional_details updates) (u_additional_details r),
       u_started_at = spread_opt (u_started_at updates) (u_started_at r),
       u_completed_at = spread_opt (u_completed_at updates) (u_completed_at r),
       u_error = spread_opt (u_error updates) (u_error r),
       u_versions = spread_opt (u_versions updates) (u_versions r),
       u_selected_version = spread_opt (u_selected_version updates) (u_selected_version r),
       u_video = spread_opt (u_video updates) (u_video r),
       u_metadata = spread_opt (u_metadata updates) (u_metadata r),
       u_thumbnail = spread_opt (u_thumbnail updates) (u_thumbnail r),
       u_duration_seconds = spread_opt (u_duration_seconds updates) (u_duration_seconds r) \<rparr>"

text \<open>The body of the \<^verbatim>\<open>ai_job\<close> case once \<^verbatim>\<open>message.job_id && message.status\<close>
  holds; \<open>jid\<close> and \<open>st\<close> are the two (non-empty) strings.\<close>

definition handle_ai_job :: "string \<Rightarrow> WebSocketMessage \<Rightarrow> string \<Rightarrow> string \<Rightarrow> world \<Rightarrow> world" where
  "handle_ai_job now message jid st w =
     (let existingJob = find (\<lambda>job. job_id job = jid) (aiJobs (store w));
          w1 = (if existingJob = None \<and> st = ''starting''
                then w\<lparr>store := addAIJob (newJob now message) (store w)\<rparr>
                else let updates = status_updates st;
                         updates' = (case msg_result message of
                                       None \<Rightarrow> updates
                                     | Some r \<Rightarrow> object_assign updates r)
                     in w\<lparr>store := updateAIJob jid updates' (store w)\<rparr>)
      in case msg_message message of
           None \<Rightarrow> w1
         | Some m \<Rightarrow>
             if m = [] then w1
             else if st = ''completed'' then toast toast_success m w1
             else if st = ''failed'' \<or> st = ''error'' then toast toast_error m w1
             else if st = ''starting'' then toast toast_plain m w1
             else w1)"

definition handleMessage :: "string \<Rightarrow> WebSocketMessage \<Rightarrow> world \<Rightarrow> world" where
  "handleMessage now message w =
     (if msg_type message = ''status'' then
        (case msg_data message of
           None \<Rightarrow> w
         | Some d \<Rightarrow> w\<lparr>store := setPipelineStatus d (store w)\<rparr>)
      else if msg_type message = ''log'' then
        (case msg_message message of
           None \<Rightarrow> w
         | Some m \<Rightarrow>
             if m = [] then w
             else if str_includes m ''error'' \<or> str_includes m ''failed'' then toast toast_error m w
             else if str_includes m ''success'' \<or> str_includes m ''completed'' then toast toast_success m w
             else toast toast_plain m w)
      else if msg_type message = ''ai_job'' then
        (case msg_job_id message of
           None \<Rightarrow> w
         | Some jid \<Rightarrow>
             (case msg_status message of
                None \<Rightarrow> w
              | Some st \<Rightarrow> if jid \<noteq> [] \<and> st \<noteq> [] then handle_ai_job now message jid st w else w))
      else console_write console_log ''Unknown message type:'' w)"

text \<open>
  \<^verbatim>\<open>connect\<close> and the four handlers it installs. \<open>constructed\<close> says whether
  \<^verbatim>\<open>new WebSocket(WS_URL)\<close> returned (it can throw, and the \<^verbatim>\<open>catch\<close> then runs).
  \<open>json_parse\<close> is \<^verbatim>\<open>JSON.parse\<close> read at the type \<^verbatim>\<open>WebSocketMessage\<close>:
  \<open>None\<close> when it throws. The handlers read and write the refs, never the socket.
\<close>

definition connect :: "bool \<Rightarrow> world \<Rightarrow> world" where
  "connect constructed w =
     (if constructed then w\<lparr>ws := Some CONNECTING, sockets := sockets w @ [WS_URL]\<rparr>
      else (console_write console_error ''Failed to connect WebSocket:'' w)
             \<lparr>store := setWsConnected False (store w)\<rparr>)"

definition onopen :: "world \<Rightarrow> world" where
  "onopen w =
     (let w1 = console_write console_log ''WebSocket connected'' w;
          w2 = w1\<lparr>store := setWsConnected True (store w1)\<rparr>;
          w3 = w2\<lparr>reconnectAttempts := 0\<rparr>
      in case reconnectTimeout w3 of
           None \<Rightarrow> w3
         | Some h \<Rightarrow> if h = 0 then w3 else (clearTimeout h w3)\<lparr>reconnectTimeout := None\<rparr>)"

definition onmessage :: "(string \<Rightarrow> WebSocketMessage option) \<Rightarrow> string \<Rightarrow> string \<Rightarrow> world \<Rightarrow> world" where
  "onmessage json_parse now data w =
     (case json_parse data of
        None \<Rightarrow> console_write console_error ''Error parsing WebSocket message:'' w
      | Some message \<Rightarrow> handleMessage now message w)"

definition onclose :: "world \<Rightarrow> world" where
  "onclose w =
     (let w1 = console_write console_log ''WebSocket disconnected'' w;
          w2 = w1\<lparr>store := setWsConnected False (store w1)\<rparr>
      in if reconnectAttempts w2 < MAX_RECONNECT_ATTEMPTS then
           let w3 = w2\<lparr>reconnectAttempts := reconnectAttempts w2 + 1\<rparr>;
               w4 = console_write console_log
                      (''Attempting to reconnect ('' @ show_nat (reconnectAttempts w3) @ ''/''
                         @ show_nat MAX_RECONNECT_ATTEMPTS @ '')...'') w3;
               (h, w5) = setTimeout RECONNECT_INTERVAL w4
           in w5\<lparr>reconnectTimeout := Some h\<rparr>
         else toast toast_error ''WebSocket connection failed. Please refresh the page.'' w2)"

definition onerror :: "world \<Rightarrow> world" where
  "onerror w = console_write console_error ''WebSocket error:'' w"

definition disconnect :: "world \<Rightarrow> world" where
  "disconnect w =
     (let w1 = (case reconnectTimeout w of
                  None \<Rightarrow> w
                | Some h \<Rightarrow> if h = 0 then w else (clearTimeout h w)\<lparr>reconnectTimeout := None\<rparr>);
          w2 = (case ws w1 of None \<Rightarrow> w1 | Some rs \<Rightarrow> w1\<lparr>ws := None\<rparr>)
      in w2\<lparr>store := setWsConnected False (store w2)\<rparr>)"

text \<open>\<^verbatim>\<open>sendMessage\<close>. \<open>stringify\<close> is \<^verbatim>\<open>JSON.stringify\<close>, \<open>None\<close> when it
  throws (a cyclic object); a throw leaves \<^verbatim>\<open>sendMessage\<close> as the error.\<close>

datatype exn = TypeError

definition sendMessage :: "('m \<Rightarrow> string option) \<Rightarrow> 'm \<Rightarrow> world \<Rightarrow> exn + world" where
  "sendMessage stringify message w =
     (if (case ws w of None \<Rightarrow> False | Some rs \<Rightarrow> rs = OPEN) then
        (case stringify message of
           None \<Rightarrow> Inl TypeError
         | Some frame \<Rightarrow> Inr (w\<lparr>sent := sent w @ [frame]\<rparr>))
      else Inr (console_write console_warn ''WebSocket is not connected'' w))"

section \<open>Status rendering (AIGeneration, in webapp/frontend/src/components/VideoVersionGrid.tsx)\<close>

datatype icon = CheckCircle | XCircle | RefreshCw | Clock

definition getStatusIcon :: "string \<Rightarrow> icon \<times> string" where
  "getStatusIcon st =
     (if st = ''completed'' then (CheckCircle, ''w-5 h-5 text-green-500'')
      else if st = ''failed'' \<or> st = ''error'' then (XCircle, ''w-5 h-5 text-red-500'')
      else if st = ''generating'' then (RefreshCw, ''w-5 h-5 text-blue-500 animate-spin'')
      else (Clock, ''w-5 h-5 text-yellow-500''))"

definition getStatusColor :: "string \<Rightarrow> string" where
  "getStatusColor st =
     (if st = ''completed'' then ''bg-green-100 text-green-800''
      else if st = ''failed'' \<or> st = ''error'' then ''bg-red-100 text-red-800''
      else if st = ''generating'' then ''bg-blue-100 text-blue-800''
      else ''bg-yellow-100 text-yellow-800'')"


section \<open>Runs of the hook\<close>

text \<open>A pending timer fires: it leaves the pending timers and \<^verbatim>\<open>connect\<close> runs. A
  handle that is not pending (cleared, or fired before) does nothing.\<close>

definition timer_fires :: "nat \<Rightarrow> bool \<Rightarrow> world \<Rightarrow> world" where
  "timer_fires h constructed w =
     (case find (\<lambda>t. fst t = h) (timers w) of
        None \<Rightarrow> w
      | Some t \<Rightarrow> connect constructed (clearTimeout h w))"

text \<open>The browser sets the \<^verbatim>\<open>readyState\<close> of a socket before it delivers the
  \<^verbatim>\<open>open\<close> or the \<^verbatim>\<open>close\<close> event; after \<^verbatim>\<open>disconnect\<close> the ref holds no
  socket and nothing is set.\<close>

definition socket_state :: "ready_state \<Rightarrow> world \<Rightarrow> world" where
  "socket_state rs w = (case ws w of None \<Rightarrow> w | Some old \<Rightarrow> w\<lparr>ws := Some rs\<rparr>)"

text \<open>What the browser can deliver to the hook: the four socket events and a timer. A
  message event carries the frame's text and the time of its arrival, a timer event the
  handle and whether the constructor in \<^verbatim>\<open>connect\<close> returns.\<close>

datatype event =
    Opened
  | Message string string
  | Closed
  | Errored
  | TimerFired nat bool

fun step :: "(string \<Rightarrow> WebSocketMessage option) \<Rightarrow> world \<Rightarrow> event \<Rightarrow> world" where
  "step json_parse w Opened = onopen (socket_state OPEN w)"
| "step json_parse w (Message data now) = onmessage json_parse now data w"
| "step json_parse w Closed = onclose (socket_state CLOSED w)"
| "step json_parse w Errored = onerror w"
| "step json_parse w (TimerFired h constructed) = timer_fires h constructed w"

definition run :: "(string \<Rightarrow> WebSocketMessage option) \<Rightarrow> event list \<Rightarrow> world \<Rightarrow> world" where
  "run json_parse evs w = foldl (step json_parse) w evs"

text \<open>\<open>n\<close> rounds of losing the connection and getting it back: the socket closes, the
  timer that \<^verbatim>\<open>onclose\<close> has set (handle \<open>h\<close>, then the next ones) fires, the new
  socket is constructed and opens.\<close>

fun reconnect_cycles :: "nat \<Rightarrow> nat \<Rightarrow> event list" where
  "reconnect_cycles h 0 = []"
| "reconnect_cycles h (Suc n) = [Closed, TimerFired h True, Opened] @ reconnect_cycles (Suc h) n"

text \<open>A sequence of parsed messages, each with the time of its arrival.\<close>

definition handle_all :: "(string \<times> WebSocketMessage) list \<Rightarrow> world \<Rightarrow> world" where
  "handle_all ms w = foldl (\<lambda>w' (now, message). handleMessage now message w') w ms"

text \<open>The state the store is created with (\<open>stored_token\<close> is
  \<^verbatim>\<open>localStorage.getItem('auth_token')\<close>) and the hook's refs before \<^verbatim>\<open>connect\<close>
  has run. Timer handles are positive.\<close>

definition initial_AppState :: "string option \<Rightarrow> AppState" where
  "initial_AppState stored_token =
     \<lparr> auth = \<lparr> user = None, token = stored_token, isAuthenticated = False, isLoading = False \<rparr>,
       pipelineStatus = \<lparr> active = False, last_run = None, videos_processed = 0,
                          pipeline_status = ''stopped'' \<rparr>,
       aiJobs = [],
       aiStatus = None,
       wsConnected = False,
       sidebarOpen = True,
       theme = Light \<rparr>"

definition initial_world :: world where
  "initial_world =
     \<lparr> store = initial_AppState None, ws = None, reconnectAttempts = 0, reconnectTimeout = None,
       timers = [], next_timer = 1, toasts = [], console = [], sent = [], sockets = [] \<rparr>"

section \<open>The lifecycle of the specification\<close>

text \<open>The GenerationJob machine as the specification words it: the success path, and
  the failure edges out of the three working states. The terminal states are
  \<open>completed\<close>, \<open>failed\<close> and \<open>error\<close>.\<close>

definition spec_edge :: "string \<Rightarrow> string \<Rightarrow> bool" where
  "spec_edge a b =
     ((a = ''starting'' \<and> b = ''generating'') \<or>
      (a = ''generating'' \<and> b = ''processing'') \<or>
      (a = ''processing'' \<and> b = ''rendering'') \<or>
      (a = ''rendering'' \<and> b = ''completed'') \<or>
      ((a = ''generating'' \<or> a = ''processing'' \<or> a = ''rendering'') \<and>
       (b = ''failed'' \<or> b = ''error'')))"

definition terminal :: "string \<Rightarrow> bool" where
  "terminal st = (st = ''completed'' \<or> st = ''failed'' \<or> st = ''error'')"

section \<open>Notions used in the statements\<close>

text \<open>The updates the \<^verbatim>\<open>ai_job\<close> case hands to \<^verbatim>\<open>updateAIJob\<close>.\<close>

definition message_updates :: "WebSocketMessage \<Rightarrow> string \<Rightarrow> AIJob_partial" where
  "message_updates message st =
     (case msg_result message of
        None \<Rightarrow> status_updates st
      | Some r \<Rightarrow> object_assign (status_updates st) r)"

text \<open>The result payload of a message names no other job: it has no key
  \<^verbatim>\<open>job_id\<close>, or the key repeats the message's own.\<close>

definition keeps_job_id :: "WebSocketMessage \<Rightarrow> bool" where
  "keeps_job_id message =
     (case msg_result message of
        None \<Rightarrow> True
      | Some r \<Rightarrow> (case u_job_id r of None \<Rightarrow> True | Some j \<Rightarrow> msg_job_id message = Some j))"

section \<open>Example data\<close>

text \<open>A job message with a job id and a status, and nothing else.\<close>

definition ai_job_message :: "string \<Rightarrow> string \<Rightarrow> WebSocketMessage" where
  "ai_job_message jid st =
     \<lparr> msg_type = ''ai_job'', msg_data = None, msg_job_id = Some jid, msg_status = Some st,
       msg_message = None, msg_result = None \<rparr>"

text \<open>The hook after the jobs \<open>a\<close> and \<open>b\<close> were announced, and after job \<open>a\<close>
  was announced and completed.\<close>

definition two_jobs :: world where
  "two_jobs = handle_all [(''t0'', ai_job_message ''a'' ''starting''),
                          (''t1'', ai_job_message ''b'' ''starting'')] initial_world"

definition finished_job :: world where
  "finished_job = handle_all [(''t0'', ai_job_message ''a'' ''starting''),
                              (''t1'', ai_job_message ''a'' ''completed'')] initial_world"

text \<open>A stand-in for \<^verbatim>\<open>JSON.parse\<close> in the examples: it reads one text as a
  message and throws on every other.\<close>

definition example_parse :: "string \<Rightarrow> WebSocketMessage option" where
  "example_parse text = (if text = ''start a'' then Some (ai_job_message ''a'' ''starting'') else None)"

text \<open>A message for job \<open>a\<close> whose result payload carries the keys
  \<^verbatim>\<open>status\<close> and \<^verbatim>\<open>job_id\<close>, the latter naming job \<open>b\<close>.\<close>

definition renaming_message :: WebSocketMessage where
  "renaming_message =
     (ai_job_message ''a'' ''generating'')
       \<lparr>msg_result := Some ((status_updates ''generating'')\<lparr>u_job_id := Some ''b''\<rparr>)\<rparr>"

section \<open>Lemmas about the handler\<close>

lemma updateAIJob_no_match:
  "\<forall>j\<in>set (aiJobs s). job_id j \<noteq> jobId \<Longrightarrow> updateAIJob jobId u s = s"
  by (simp add: updateAIJob_def map_idI)

lemma find_job_None:
  "(find (\<lambda>job. job_id job = jid) js = None) = (\<forall>j\<in>set js. job_id j \<noteq> jid)"
  by (auto simp add: find_None_iff)

lemma store_toast [simp]: "store (toast k m w) = store w"
  by (simp add: toast_def)

lemma store_console_write [simp]: "store (console_write l m w) = store w"
  by (simp add: console_write_def)

lemma store_handle_ai_job:
  "store (handle_ai_job now m jid st w) =
     (if (\<forall>j\<in>set (aiJobs (store w)). job_id j \<noteq> jid) \<and> st = ''starting''
      then addAIJob (newJob now m) (store w)
      else updateAIJob jid (message_updates m st) (store w))"
  unfolding handle_ai_job_def Let_def message_updates_def find_job_None
  by (cases "msg_message m"; cases "msg_result m"; simp)

lemma toasts_handle_ai_job:
  "toasts (handle_ai_job now m jid st w) =
     toasts w @
     (case msg_message m of
        None \<Rightarrow> []
      | Some t \<Rightarrow>
          if t = [] then []
          else if st = ''completed'' then [(toast_success, t)]
          else if st = ''failed'' \<or> st = ''error'' then [(toast_error, t)]
          else if st = ''starting'' then [(toast_plain, t)]
          else [])"
  unfolding handle_ai_job_def Let_def
  by (cases "msg_message m"; simp add: toast_def)

lemma handleMessage_ai_job:
  assumes "msg_type m = ''ai_job''" "msg_job_id m = Some jid" "msg_status m = Some st"
    "jid \<noteq> []" "st \<noteq> []"
  shows "handleMessage now m w = handle_ai_job now m jid st w"
  using assms by (simp add: handleMessage_def)

lemma handleMessage_ai_job_ignored:
  assumes "msg_type m = ''ai_job''"
    and "msg_job_id m = None \<or> msg_job_id m = Some [] \<or> msg_status m = None \<or> msg_status m = Some []"
  shows "handleMessage now m w = w"
proof (cases "msg_job_id m")
  case None
  with assms(1) show ?thesis by (simp add: handleMessage_def)
next
  case (Some jid)
  show ?thesis
  proof (cases "msg_status m")
    case None
    with Some assms(1) show ?thesis by (simp add: handleMessage_def)
  next
    case (Some st)
    with \<open>msg_job_id m = Some jid\<close> assms show ?thesis by (auto simp add: handleMessage_def)
  qed
qed

lemma aiJobs_handleMessage_other:
  assumes "msg_type m \<noteq> ''ai_job''"
  shows "aiJobs (store (handleMessage now m w)) = aiJobs (store w)"
proof -
  consider "msg_type m = ''status''" | "msg_type m = ''log''"
    | "msg_type m \<noteq> ''status''" "msg_type m \<noteq> ''log''" by blast
  then show ?thesis
  proof cases
    case 1
    then show ?thesis
      by (cases "msg_data m") (simp_all add: handleMessage_def setPipelineStatus_def)
  next
    case 2
    then show ?thesis
      by (cases "msg_message m") (simp_all add: handleMessage_def)
  next
    case 3
    with assms show ?thesis by (simp add: handleMessage_def)
  qed
qed

lemma message_cases:
  obtains (job) jid st where "msg_type m = ''ai_job''" "msg_job_id m = Some jid"
      "msg_status m = Some st" "jid \<noteq> []" "st \<noteq> []"
  | (ignored) "msg_type m = ''ai_job''"
      "msg_job_id m = None \<or> msg_job_id m = Some [] \<or> msg_status m = None \<or> msg_status m = Some []"
  | (other) "msg_type m \<noteq> ''ai_job''"
  by (cases "msg_job_id m"; cases "msg_status m") auto

lemma store_handle_ai_job_add:
  assumes "\<forall>j\<in>set (aiJobs (store w)). job_id j \<noteq> jid" "st = ''starting''"
  shows "store (handle_ai_job now m jid st w) = addAIJob (newJob now m) (store w)"
  using assms by (simp add: store_handle_ai_job)

lemma store_handle_ai_job_update:
  assumes "(\<exists>j\<in>set (aiJobs (store w)). job_id j = jid) \<or> st \<noteq> ''starting''"
  shows "store (handle_ai_job now m jid st w) = updateAIJob jid (message_updates m st) (store w)"
  using assms by (auto simp add: store_handle_ai_job)

lemma two_jobs_ids: "map job_id (aiJobs (store two_jobs)) = [''b'', ''a'']"
  by (simp add: two_jobs_def handle_all_def handleMessage_def handle_ai_job_def ai_job_message_def
      initial_world_def initial_AppState_def addAIJob_def newJob_def or_default_def)

lemma two_jobs_statuses: "map status (aiJobs (store two_jobs)) = [''starting'', ''starting'']"
  by (simp add: two_jobs_def handle_all_def handleMessage_def handle_ai_job_def ai_job_message_def
      initial_world_def initial_AppState_def addAIJob_def newJob_def or_default_def)

lemma two_jobs_no_c: "\<forall>j\<in>set (aiJobs (store two_jobs)). job_id j \<noteq> ''c''"
proof
  fix j
  assume "j \<in> set (aiJobs (store two_jobs))"
  then have "job_id j \<in> set (map job_id (aiJobs (store two_jobs)))"
    by simp
  then have "job_id j \<in> set [''b'', ''a'']"
    by (simp only: two_jobs_ids)
  then show "job_id j \<noteq> ''c''"
    by auto
qed


lemma store_handleMessage_cong:
  assumes "store w = store w'"
  shows "store (handleMessage now m w) = store (handleMessage now m w')"
proof (cases m rule: message_cases)
  case (job jid st)
  show ?thesis
    unfolding handleMessage_ai_job [OF job] store_handle_ai_job assms ..
next
  case ignored
  then show ?thesis using assms by (simp add: handleMessage_ai_job_ignored)
next
  case other
  consider "msg_type m = ''status''" | "msg_type m = ''log''"
    | "msg_type m \<noteq> ''status''" "msg_type m \<noteq> ''log''" by blast
  then show ?thesis
  proof cases
    case 1
    then show ?thesis using assms
      by (cases "msg_data m") (simp_all add: handleMessage_def)
  next
    case 2
    then show ?thesis using assms
      by (cases "msg_message m") (simp_all add: handleMessage_def)
  next
    case 3
    with other show ?thesis using assms by (simp add: handleMessage_def)
  qed
qed

lemma toasts_handleMessage:
  "toasts (handleMessage now m w) = toasts w @ toasts (handleMessage now m (w'\<lparr>toasts := []\<rparr>))"
proof (cases m rule: message_cases)
  case (job jid st)
  show ?thesis
    unfolding handleMessage_ai_job [OF job] toasts_handle_ai_job by simp
next
  case ignored
  then show ?thesis by (simp add: handleMessage_ai_job_ignored)
next
  case other
  consider "msg_type m = ''status''" | "msg_type m = ''log''"
    | "msg_type m \<noteq> ''status''" "msg_type m \<noteq> ''log''" by blast
  then show ?thesis
  proof cases
    case 1
    then show ?thesis 
      by (cases "msg_data m") (simp_all add: handleMessage_def)
  next
    case 2
    then show ?thesis
      by (cases "msg_message m") (simp_all add: handleMessage_def toast_def)
  next
    case 3
    with other show ?thesis by (simp add: handleMessage_def console_write_def)
  qed
qed

lemma toasts_console_write [simp]: "toasts (console_write l t w) = toasts w"
  by (simp add: console_write_def)


lemma status_spread_AIJob: "status (spread_AIJob job u) = spread (status job) (u_status u)"
  by (simp add: spread_AIJob_def)

lemma job_id_spread_AIJob: "job_id (spread_AIJob job u) = spread (job_id job) (u_job_id u)"
  by (simp add: spread_AIJob_def)

lemma u_status_message_updates:
  "u_status (message_updates m st)
     = Some (case msg_result m of None \<Rightarrow> st | Some r \<Rightarrow> spread st (u_status r))"
  by (cases "msg_result m"; cases "u_status (the (msg_result m))")
     (simp_all add: message_updates_def status_updates_def object_assign_def spread_opt_def spread_def)

lemma u_job_id_message_updates:
  "u_job_id (message_updates m st) = (case msg_result m of None \<Rightarrow> None | Some r \<Rightarrow> u_job_id r)"
  by (cases "msg_result m"; cases "u_job_id (the (msg_result m))")
     (simp_all add: message_updates_def status_updates_def object_assign_def spread_opt_def)

lemma console_toast [simp]: "console (toast k t w) = console w"
  by (simp add: toast_def)

lemma console_handle_ai_job: "console (handle_ai_job now m jid st w) = console w"
  unfolding handle_ai_job_def Let_def
  by (cases "msg_message m"; cases "msg_result m"; simp)

lemma finished_job_ids: "map job_id (aiJobs (store finished_job)) = [''a'']"
  by (simp add: finished_job_def handle_all_def handleMessage_def handle_ai_job_def ai_job_message_def
      initial_world_def initial_AppState_def addAIJob_def newJob_def or_default_def
      updateAIJob_def spread_AIJob_def status_updates_def spread_def spread_opt_def)

lemma finished_job_statuses: "map status (aiJobs (store finished_job)) = [''completed'']"
  by (simp add: finished_job_def handle_all_def handleMessage_def handle_ai_job_def ai_job_message_def
      initial_world_def initial_AppState_def addAIJob_def newJob_def or_default_def
      updateAIJob_def spread_AIJob_def status_updates_def spread_def spread_opt_def)

lemma job_id_newJob:
  assumes "msg_job_id m = Some jid" "jid \<noteq> []"
  shows "job_id (newJob now m) = jid"
  using assms by (simp add: newJob_def or_default_def)

lemma job_ids_updateAIJob:
  assumes "u_job_id u = None \<or> u_job_id u = Some jid"
  shows "map job_id (aiJobs (updateAIJob jid u s)) = map job_id (aiJobs s)"
  using assms by (auto simp add: updateAIJob_def job_id_spread_AIJob spread_def)

lemma keeps_job_id_updates:
  assumes "keeps_job_id m" "msg_job_id m = Some jid"
  shows "u_job_id (message_updates m st) = None \<or> u_job_id (message_updates m st) = Some jid"
proof (cases "msg_result m")
  case None
  then show ?thesis by (simp add: u_job_id_message_updates)
next
  case (Some r)
  with assms show ?thesis
    by (cases "u_job_id r") (simp_all add: u_job_id_message_updates keeps_job_id_def)
qed

lemma job_ids_handleMessage_existing:
  assumes "\<exists>j\<in>set (aiJobs (store w)). Some (job_id j) = msg_job_id m" "keeps_job_id m"
  shows "map job_id (aiJobs (store (handleMessage now m w))) = map job_id (aiJobs (store w))"
proof (cases m rule: message_cases)
  case (job jid st)
  with assms(1) have "\<exists>j\<in>set (aiJobs (store w)). job_id j = jid" by simp
  then have "store (handleMessage now m w) = updateAIJob jid (message_updates m st) (store w)"
    unfolding handleMessage_ai_job [OF job] by (intro store_handle_ai_job_update) blast
  then show ?thesis
    using keeps_job_id_updates [OF assms(2) job(2)] by (simp add: job_ids_updateAIJob)
next
  case ignored
  then show ?thesis by (simp add: handleMessage_ai_job_ignored)
next
  case other
  then show ?thesis by (simp add: aiJobs_handleMessage_other)
qed

lemma distinct_handleMessage:
  assumes "distinct (map job_id (aiJobs (store w)))" "keeps_job_id m"
  shows "distinct (map job_id (aiJobs (store (handleMessage now m w))))"
proof (cases m rule: message_cases)
  case (job jid st)
  note h = handleMessage_ai_job [OF job, of now w]
  show ?thesis
  proof (cases "(\<forall>j\<in>set (aiJobs (store w)). job_id j \<noteq> jid) \<and> st = ''starting''")
    case True
    then have "store (handleMessage now m w) = addAIJob (newJob now m) (store w)"
      by (simp add: h store_handle_ai_job_add)
    then have "map job_id (aiJobs (store (handleMessage now m w)))
                 = jid # map job_id (aiJobs (store w))"
      by (simp add: addAIJob_def job_id_newJob [OF job(2) job(4)])
    moreover from True have "jid \<notin> set (map job_id (aiJobs (store w)))" by auto
    ultimately show ?thesis using assms(1) by simp
  next
    case False
    then have "store (handleMessage now m w) = updateAIJob jid (message_updates m st) (store w)"
      unfolding h by (intro store_handle_ai_job_update) blast
    then show ?thesis
      using keeps_job_id_updates [OF assms(2) job(2)] assms(1) by (simp add: job_ids_updateAIJob)
  qed
next
  case ignored
  then show ?thesis using assms(1) by (simp add: handleMessage_ai_job_ignored)
next
  case other
  then show ?thesis using assms(1) by (simp add: aiJobs_handleMessage_other)
qed

lemma distinct_handle_all:
  assumes "distinct (map job_id (aiJobs (store w)))" "\<forall>x\<in>set ms. keeps_job_id (snd x)"
  shows "distinct (map job_id (aiJobs (store (handle_all ms w))))"
  using assms(2)
proof (induction ms rule: rev_induct)
  case Nil
  then show ?case using assms(1) by (simp add: handle_all_def)
next
  case (snoc x xs)
  then have "distinct (map job_id (aiJobs (store (handle_all xs w))))" and "keeps_job_id (snd x)"
    by simp_all
  then have "distinct (map job_id (aiJobs (store (handleMessage (fst x) (snd x) (handle_all xs w)))))"
    by (rule distinct_handleMessage)
  then show ?case by (simp add: handle_all_def case_prod_beta)
qed

lemma added_only_if_absent:
  assumes "length (aiJobs (store (handleMessage now m w))) \<noteq> length (aiJobs (store w))"
  shows "\<forall>j\<in>set (aiJobs (store w)). Some (job_id j) \<noteq> msg_job_id m"
proof (cases m rule: message_cases)
  case (job jid st)
  note h = handleMessage_ai_job [OF job, of now w]
  show ?thesis
  proof (cases "(\<forall>j\<in>set (aiJobs (store w)). job_id j \<noteq> jid) \<and> st = ''starting''")
    case True
    with job(2) show ?thesis by simp
  next
    case False
    then have "store (handleMessage now m w) = updateAIJob jid (message_updates m st) (store w)"
      unfolding h by (intro store_handle_ai_job_update) blast
    with assms show ?thesis by (simp add: updateAIJob_def)
  qed
next
  case ignored
  with assms show ?thesis by (simp add: handleMessage_ai_job_ignored)
next
  case other
  with assms show ?thesis by (simp add: aiJobs_handleMessage_other)
qed

lemma onclose_retry:
  assumes "reconnectAttempts w < MAX_RECONNECT_ATTEMPTS"
  shows "reconnectAttempts (onclose w) = Suc (reconnectAttempts w)"
    and "timers (onclose w) = timers w @ [(next_timer w, RECONNECT_INTERVAL)]"
    and "next_timer (onclose w) = Suc (next_timer w)"
    and "reconnectTimeout (onclose w) = Some (next_timer w)"
    and "toasts (onclose w) = toasts w"
    and "sockets (onclose w) = sockets w"
    and "ws (onclose w) = ws w"
  using assms by (simp_all add: onclose_def Let_def setTimeout_def console_write_def)

lemma onclose_give_up:
  assumes "\<not> reconnectAttempts w < MAX_RECONNECT_ATTEMPTS"
  shows "reconnectAttempts (onclose w) = reconnectAttempts w"
    and "timers (onclose w) = timers w"
    and "next_timer (onclose w) = next_timer w"
    and "toasts (onclose w)
           = toasts w @ [(toast_error, ''WebSocket connection failed. Please refresh the page.'')]"
    and "sockets (onclose w) = sockets w"
  using assms by (simp_all add: onclose_def Let_def toast_def console_write_def)

lemma onopen_refs:
  "reconnectAttempts (onopen w) = 0" "next_timer (onopen w) = next_timer w"
  "sockets (onopen w) = sockets w" "ws (onopen w) = ws w"
  "wsConnected (store (onopen w)) = True"
  "length (timers (onopen w)) \<le> length (timers w)"
  by (cases "reconnectTimeout w";
      simp add: onopen_def Let_def console_write_def clearTimeout_def setWsConnected_def)+

lemma socket_state_refs [simp]:
  "reconnectAttempts (socket_state rs w) = reconnectAttempts w"
  "next_timer (socket_state rs w) = next_timer w"
  "timers (socket_state rs w) = timers w"
  "sockets (socket_state rs w) = sockets w"
  "toasts (socket_state rs w) = toasts w"
  by (cases "ws w"; simp add: socket_state_def)+

lemma ws_socket_state: "ws w \<noteq> None \<Longrightarrow> ws (socket_state rs w) = Some rs"
  by (cases "ws w") (simp_all add: socket_state_def)

lemma refs_handle_ai_job:
  "reconnectAttempts (handle_ai_job now m jid st w) = reconnectAttempts w"
  "next_timer (handle_ai_job now m jid st w) = next_timer w"
  "timers (handle_ai_job now m jid st w) = timers w"
  "sockets (handle_ai_job now m jid st w) = sockets w"
  unfolding handle_ai_job_def Let_def
  by (cases "msg_message m"; cases "msg_result m"; simp add: toast_def)+

lemma refs_handleMessage:
  "reconnectAttempts (handleMessage now m w) = reconnectAttempts w
   \<and> next_timer (handleMessage now m w) = next_timer w
   \<and> timers (handleMessage now m w) = timers w
   \<and> sockets (handleMessage now m w) = sockets w"
proof (cases m rule: message_cases)
  case (job jid st)
  show ?thesis
    unfolding handleMessage_ai_job [OF job] by (simp add: refs_handle_ai_job)
next
  case ignored
  then show ?thesis by (simp add: handleMessage_ai_job_ignored)
next
  case other
  consider "msg_type m = ''status''" | "msg_type m = ''log''"
    | "msg_type m \<noteq> ''status''" "msg_type m \<noteq> ''log''" by blast
  then show ?thesis
  proof cases
    case 1
    then show ?thesis
      by (cases "msg_data m") (simp_all add: handleMessage_def)
  next
    case 2
    then show ?thesis
      by (cases "msg_message m") (simp_all add: handleMessage_def toast_def)
  next
    case 3
    with other show ?thesis by (simp add: handleMessage_def console_write_def)
  qed
qed

lemma refs_onmessage:
  "reconnectAttempts (onmessage json_parse now d w) = reconnectAttempts w
   \<and> next_timer (onmessage json_parse now d w) = next_timer w
   \<and> timers (onmessage json_parse now d w) = timers w
   \<and> sockets (onmessage json_parse now d w) = sockets w"
  by (cases "json_parse d") (simp_all add: onmessage_def console_write_def refs_handleMessage)

lemma refs_onerror:
  "reconnectAttempts (onerror w) = reconnectAttempts w \<and> next_timer (onerror w) = next_timer w
   \<and> timers (onerror w) = timers w \<and> sockets (onerror w) = sockets w"
  by (simp add: onerror_def console_write_def)

text \<open>A timer that fires leaves the pending timers, and \<^verbatim>\<open>connect\<close> constructs at most
  one socket.\<close>

lemma find_Some_filter_shorter:
  assumes "find P xs = Some x"
  shows "length (filter (\<lambda>t. \<not> P t) xs) < length xs"
proof -
  from assms have "x \<in> set xs" "P x"
    by (auto simp add: find_Some_iff)
  then have "\<exists>t\<in>set xs. \<not> \<not> P t" by blast
  then show ?thesis
    using length_filter_less [of _ xs "\<lambda>t. \<not> P t"] by blast
qed

lemma refs_timer_fires:
  "reconnectAttempts (timer_fires h c w) = reconnectAttempts w
   \<and> next_timer (timer_fires h c w) = next_timer w
   \<and> length (sockets (timer_fires h c w)) + length (timers (timer_fires h c w))
        \<le> length (sockets w) + length (timers w)"
proof (cases "find (\<lambda>t. fst t = h) (timers w)")
  case None
  then show ?thesis by (simp add: timer_fires_def)
next
  case (Some t)
  from find_Some_filter_shorter [OF Some]
  have "length (filter (\<lambda>t. fst t \<noteq> h) (timers w)) < length (timers w)" .
  with Some show ?thesis
    by (cases c) (simp_all add: timer_fires_def connect_def clearTimeout_def console_write_def)
qed

lemma timer_fires_pending:
  assumes "find (\<lambda>t. fst t = h) (timers w) \<noteq> None"
  shows "timer_fires h c w = connect c (clearTimeout h w)"
  using assms by (cases "find (\<lambda>t. fst t = h) (timers w)") (simp_all add: timer_fires_def)

lemma connect_constructed:
  "ws (connect True w) = Some CONNECTING" "sockets (connect True w) = sockets w @ [WS_URL]"
  "reconnectAttempts (connect True w) = reconnectAttempts w"
  "next_timer (connect True w) = next_timer w" "timers (connect True w) = timers w"
  by (simp_all add: connect_def)

lemma clearTimeout_refs [simp]:
  "sockets (clearTimeout h w) = sockets w" "ws (clearTimeout h w) = ws w"
  "reconnectAttempts (clearTimeout h w) = reconnectAttempts w"
  "next_timer (clearTimeout h w) = next_timer w"
  "find (\<lambda>t. fst t = h) (timers (clearTimeout h w)) = None"
  by (simp_all add: clearTimeout_def find_None_iff)

text \<open>The timer that \<^verbatim>\<open>onclose\<close> sets is pending, and when it fires
  \<^verbatim>\<open>connect\<close> runs.\<close>

lemma scheduled_timer_connects:
  assumes "reconnectAttempts w < MAX_RECONNECT_ATTEMPTS"
  shows "timer_fires (next_timer w) c (onclose w)
           = connect c (clearTimeout (next_timer w) (onclose w))"
proof (rule timer_fires_pending)
  have "(next_timer w, RECONNECT_INTERVAL) \<in> set (timers (onclose w))"
    by (simp add: onclose_retry [OF assms])
  then have "\<exists>t\<in>set (timers (onclose w)). fst t = next_timer w"
    by force
  then show "find (\<lambda>t. fst t = next_timer w) (timers (onclose w)) \<noteq> None"
    unfolding find_None_iff by blast
qed


text \<open>Between two opens: the timers set and the attempts counted grow together, and every
  socket constructed uses up a pending timer.\<close>

lemma step_without_open:
  assumes "e \<noteq> Opened" "reconnectAttempts w \<le> MAX_RECONNECT_ATTEMPTS"
  shows "reconnectAttempts (step json_parse w e) \<le> MAX_RECONNECT_ATTEMPTS
         \<and> reconnectAttempts w \<le> reconnectAttempts (step json_parse w e)
         \<and> next_timer (step json_parse w e) + reconnectAttempts w
             = next_timer w + reconnectAttempts (step json_parse w e)
         \<and> length (sockets (step json_parse w e)) + length (timers (step json_parse w e))
               + reconnectAttempts w
             \<le> length (sockets w) + length (timers w) + reconnectAttempts (step json_parse w e)"
proof (cases e)
  case Opened
  with assms show ?thesis by simp
next
  case (Message d now)
  with assms show ?thesis by (simp add: refs_onmessage)
next
  case Closed
  let ?w = "socket_state CLOSED w"
  show ?thesis
  proof (cases "reconnectAttempts ?w < MAX_RECONNECT_ATTEMPTS")
    case True
    from onclose_retry [OF True] True show ?thesis unfolding Closed step.simps by simp
  next
    case False
    from onclose_give_up [OF False] assms(2) show ?thesis unfolding Closed step.simps by simp
  qed
next
  case Errored
  with assms show ?thesis by (simp add: refs_onerror)
next
  case (TimerFired h c)
  with assms refs_timer_fires [of h c w] show ?thesis by simp
qed

lemma run_without_open:
  assumes "Opened \<notin> set evs" "reconnectAttempts w \<le> MAX_RECONNECT_ATTEMPTS"
  shows "reconnectAttempts (run json_parse evs w) \<le> MAX_RECONNECT_ATTEMPTS
         \<and> reconnectAttempts w \<le> reconnectAttempts (run json_parse evs w)
         \<and> next_timer (run json_parse evs w) + reconnectAttempts w
             = next_timer w + reconnectAttempts (run json_parse evs w)
         \<and> length (sockets (run json_parse evs w)) + length (timers (run json_parse evs w))
               + reconnectAttempts w
             \<le> length (sockets w) + length (timers w) + reconnectAttempts (run json_parse evs w)"
  using assms(1)
proof (induction evs rule: rev_induct)
  case Nil
  then show ?case using assms(2) by (simp add: run_def)
next
  case (snoc e evs)
  let ?v = "run json_parse evs w"
  from snoc have ih: "reconnectAttempts ?v \<le> MAX_RECONNECT_ATTEMPTS
         \<and> reconnectAttempts w \<le> reconnectAttempts ?v
         \<and> next_timer ?v + reconnectAttempts w = next_timer w + reconnectAttempts ?v
         \<and> length (sockets ?v) + length (timers ?v) + reconnectAttempts w
             \<le> length (sockets w) + length (timers w) + reconnectAttempts ?v"
    and e: "e \<noteq> Opened" by auto
  have r: "run json_parse (evs @ [e]) w = step json_parse ?v e"
    by (simp add: run_def)
  from ih have "reconnectAttempts ?v \<le> MAX_RECONNECT_ATTEMPTS" by simp
  from step_without_open [OF e this, of json_parse] ih
  show ?case unfolding r by linarith
qed

lemma run_append: "run json_parse (xs @ ys) w = run json_parse ys (run json_parse xs w)"
  by (simp add: run_def)

text \<open>One round: close, the timer fires, the new socket opens.\<close>

lemma reconnect_cycle:
  assumes "reconnectAttempts w < MAX_RECONNECT_ATTEMPTS"
  shows "sockets (run json_parse [Closed, TimerFired (next_timer w) True, Opened] w)
           = sockets w @ [WS_URL]"
    and "ws (run json_parse [Closed, TimerFired (next_timer w) True, Opened] w) = Some OPEN"
    and "reconnectAttempts (run json_parse [Closed, TimerFired (next_timer w) True, Opened] w) = 0"
    and "next_timer (run json_parse [Closed, TimerFired (next_timer w) True, Opened] w)
           = Suc (next_timer w)"
    and "wsConnected (store (run json_parse [Closed, TimerFired (next_timer w) True, Opened] w))"
proof -
  let ?c = "socket_state CLOSED w"
  let ?h = "next_timer w"
  have a: "reconnectAttempts ?c < MAX_RECONNECT_ATTEMPTS" and h: "next_timer ?c = ?h"
    using assms by simp_all
  let ?f = "timer_fires ?h True (onclose ?c)"
  have f: "?f = connect True (clearTimeout ?h (onclose ?c))"
    using scheduled_timer_connects [OF a, of True] by (simp only: h)
  have fs: "sockets ?f = sockets w @ [WS_URL]" "ws ?f = Some CONNECTING"
    "next_timer ?f = Suc ?h"
    by (simp_all add: f connect_constructed onclose_retry [OF a])
  have r: "run json_parse [Closed, TimerFired ?h True, Opened] w = onopen (socket_state OPEN ?f)"
    by (simp add: run_def)
  have o: "ws (socket_state OPEN ?f) = Some OPEN"
    by (rule ws_socket_state) (simp add: fs)
  show "sockets (run json_parse [Closed, TimerFired ?h True, Opened] w) = sockets w @ [WS_URL]"
    unfolding r by (simp add: onopen_refs fs)
  show "ws (run json_parse [Closed, TimerFired ?h True, Opened] w) = Some OPEN"
    unfolding r by (simp add: onopen_refs o)
  show "reconnectAttempts (run json_parse [Closed, TimerFired ?h True, Opened] w) = 0"
    unfolding r by (simp add: onopen_refs)
  show "next_timer (run json_parse [Closed, TimerFired ?h True, Opened] w) = Suc ?h"
    unfolding r by (simp add: onopen_refs fs)
  show "wsConnected (store (run json_parse [Closed, TimerFired ?h True, Opened] w))"
    unfolding r by (simp add: onopen_refs)
qed

lemma reconnects_unbounded:
  assumes "reconnectAttempts w < MAX_RECONNECT_ATTEMPTS"
  shows "sockets (run json_parse (reconnect_cycles (next_timer w) n) w)
           = sockets w @ replicate n WS_URL"
  using assms
proof (induction n arbitrary: w)
  case 0
  then show ?case by (simp add: run_def)
next
  case (Suc n)
  let ?v = "run json_parse [Closed, TimerFired (next_timer w) True, Opened] w"
  note c = reconnect_cycle [OF Suc.prems, of json_parse]
  have v: "reconnectAttempts ?v < MAX_RECONNECT_ATTEMPTS"
    by (simp only: c) (simp add: MAX_RECONNECT_ATTEMPTS_def)
  have "run json_parse (reconnect_cycles (next_timer w) (Suc n)) w
          = run json_parse (reconnect_cycles (next_timer ?v) n) ?v"
    by (simp only: reconnect_cycles.simps run_append c)
  also have "sockets \<dots> = sockets ?v @ replicate n WS_URL"
    by (rule Suc.IH [OF v])
  finally show ?case
    by (simp only: c) (simp add: replicate_app_Cons_same)
qed

section \<open>The claims\<close>

text \<open>
  Claim C1, as amended. \<^verbatim>\<open>updateAIJob\<close> checks no edge: at every position, a job
  whose id is \<open>jobId\<close> takes the requested status, whatever its current status, and
  keeps its status when the updates carry none; a job with another id keeps its status.
\<close>

theorem updateAIJob_sets_status:
  "\<forall>i < length (aiJobs s).
     status (aiJobs (updateAIJob jobId updates s) ! i)
       = (if job_id (aiJobs s ! i) = jobId
          then (case u_status updates of None \<Rightarrow> status (aiJobs s ! i) | Some st \<Rightarrow> st)
          else status (aiJobs s ! i))"
  by (simp add: updateAIJob_def status_spread_AIJob spread_def)

theorem updateAIJob_sets_status_witness:
  "map status (aiJobs (updateAIJob ''a'' (status_updates ''completed'') (store two_jobs)))
     = [''starting'', ''completed'']"
proof -
  let ?s = "updateAIJob ''a'' (status_updates ''completed'') (store two_jobs)"
  have l: "length (aiJobs (store two_jobs)) = 2"
    using arg_cong [OF two_jobs_ids, of length] by simp
  have l': "length (aiJobs ?s) = 2"
    using l by (simp add: updateAIJob_def)
  have ids: "job_id (aiJobs (store two_jobs) ! 0) = ''b''" "job_id (aiJobs (store two_jobs) ! 1) = ''a''"
    using arg_cong [OF two_jobs_ids, of "\<lambda>xs. xs ! 0"] arg_cong [OF two_jobs_ids, of "\<lambda>xs. xs ! 1"] l
    by simp_all
  have sts: "status (aiJobs (store two_jobs) ! 0) = ''starting''"
    using arg_cong [OF two_jobs_statuses, of "\<lambda>xs. xs ! 0"] l by simp
  have u: "u_status (status_updates ''completed'') = Some ''completed''"
    by (simp add: status_updates_def)
  have s0: "status (aiJobs ?s ! 0) = ''starting''"
    using updateAIJob_sets_status [rule_format, of 0 "store two_jobs" "''a''" "status_updates ''completed''"]
      l ids sts by simp
  have s1: "status (aiJobs ?s ! 1) = ''completed''"
    using updateAIJob_sets_status [rule_format, of 1 "store two_jobs" "''a''" "status_updates ''completed''"]
      l ids u by simp
  have "map status (aiJobs ?s) = [map status (aiJobs ?s) ! 0, map status (aiJobs ?s) ! 1]"
    using l' by (auto simp add: list_eq_iff_nth_eq less_Suc_eq numeral_2_eq_2)
  with s0 s1 l' show ?thesis by simp
qed

text \<open>The claim as stated fails: \<open>starting\<close> to \<open>completed\<close> is no edge of the
  lifecycle, and the update of job \<open>a\<close> from the one to the other changes its status.\<close>

theorem updateAIJob_ignores_edges:
  "\<not> spec_edge ''starting'' ''completed''
   \<and> map job_id (aiJobs (store two_jobs)) = [''b'', ''a'']
   \<and> map status (aiJobs (store two_jobs)) = [''starting'', ''starting'']
   \<and> map status (aiJobs (updateAIJob ''a'' (status_updates ''completed'') (store two_jobs)))
       \<noteq> map status (aiJobs (store two_jobs))"
proof -
  have e: "\<not> spec_edge ''starting'' ''completed''"
    by (simp add: spec_edge_def)
  have "map status (aiJobs (updateAIJob ''a'' (status_updates ''completed'') (store two_jobs)))
       = [''starting'', ''completed'']"
    by (simp add: two_jobs_def handle_all_def handleMessage_def handle_ai_job_def ai_job_message_def
      initial_world_def initial_AppState_def addAIJob_def newJob_def or_default_def
      updateAIJob_def spread_AIJob_def status_updates_def spread_def spread_opt_def)
  then have c: "map status (aiJobs (updateAIJob ''a'' (status_updates ''completed'') (store two_jobs)))
       \<noteq> map status (aiJobs (store two_jobs))"
    by (simp add: two_jobs_statuses)
  from e two_jobs_ids two_jobs_statuses c show ?thesis by (intro conjI)
qed

text \<open>
  Claim C2, as amended. A status update for a job whose status is terminal is applied like
  any other: after a job message for its id the job has the status of the message (or the
  status key of the result payload, when there is one). Nothing is reported back: the
  toasts added are the ones the message adds on any store, and no console line is written.
\<close>

theorem terminal_job_update_applied:
  "msg_type m = ''ai_job'' \<and> msg_job_id m = Some jid \<and> msg_status m = Some st \<and> jid \<noteq> [] \<and> st \<noteq> []
     \<and> i < length (aiJobs (store w)) \<and> job_id (aiJobs (store w) ! i) = jid
     \<and> terminal (status (aiJobs (store w) ! i))
   \<longrightarrow> status (aiJobs (store (handleMessage now m w)) ! i)
         = (case msg_result m of None \<Rightarrow> st | Some r \<Rightarrow> spread st (u_status r))
     \<and> toasts (handleMessage now m w) = toasts w @ toasts (handleMessage now m (w'\<lparr>toasts := []\<rparr>))
     \<and> console (handleMessage now m w) = console w"
proof
  assume a: "msg_type m = ''ai_job'' \<and> msg_job_id m = Some jid \<and> msg_status m = Some st \<and> jid \<noteq> [] \<and> st \<noteq> []
     \<and> i < length (aiJobs (store w)) \<and> job_id (aiJobs (store w) ! i) = jid
     \<and> terminal (status (aiJobs (store w) ! i))"
  then have job: "msg_type m = ''ai_job''" "msg_job_id m = Some jid" "msg_status m = Some st"
    "jid \<noteq> []" "st \<noteq> []" by simp_all
  from a have i: "i < length (aiJobs (store w))" and id: "job_id (aiJobs (store w) ! i) = jid"
    by simp_all
  note h = handleMessage_ai_job [OF job, of now w]
  from i id have "\<exists>j\<in>set (aiJobs (store w)). job_id j = jid"
    using nth_mem by blast
  then have "store (handleMessage now m w) = updateAIJob jid (message_updates m st) (store w)"
    unfolding h by (intro store_handle_ai_job_update) blast
  then have applied: "status (aiJobs (store (handleMessage now m w)) ! i)
         = (case msg_result m of None \<Rightarrow> st | Some r \<Rightarrow> spread st (u_status r))"
    using i id
    by (simp add: updateAIJob_def status_spread_AIJob u_status_message_updates spread_def)
  have silent: "console (handleMessage now m w) = console w"
    unfolding h by (rule console_handle_ai_job)
  from applied toasts_handleMessage [of now m w w'] silent
  show "status (aiJobs (store (handleMessage now m w)) ! i)
         = (case msg_result m of None \<Rightarrow> st | Some r \<Rightarrow> spread st (u_status r))
     \<and> toasts (handleMessage now m w) = toasts w @ toasts (handleMessage now m (w'\<lparr>toasts := []\<rparr>))
     \<and> console (handleMessage now m w) = console w"
    by (intro conjI)
qed

theorem terminal_job_update_applied_witness:
  "terminal (status (aiJobs (store finished_job) ! 0))
   \<and> status (aiJobs (store (handleMessage ''t2'' (ai_job_message ''a'' ''generating'') finished_job)) ! 0)
       = ''generating''
   \<and> console (handleMessage ''t2'' (ai_job_message ''a'' ''generating'') finished_job)
       = console finished_job"
proof -
  let ?m = "ai_job_message ''a'' ''generating''"
  have l: "length (aiJobs (store finished_job)) = 1"
    using arg_cong [OF finished_job_ids, of length] by simp
  have id: "job_id (aiJobs (store finished_job) ! 0) = ''a''"
    using arg_cong [OF finished_job_ids, of "\<lambda>xs. xs ! 0"] l by simp
  have st: "status (aiJobs (store finished_job) ! 0) = ''completed''"
    using arg_cong [OF finished_job_statuses, of "\<lambda>xs. xs ! 0"] l by simp
  then have t: "terminal (status (aiJobs (store finished_job) ! 0))"
    by (simp add: terminal_def)
  have pre: "msg_type ?m = ''ai_job'' \<and> msg_job_id ?m = Some ''a'' \<and> msg_status ?m = Some ''generating''
     \<and> ''a'' \<noteq> [] \<and> ''generating'' \<noteq> []
     \<and> 0 < length (aiJobs (store finished_job)) \<and> job_id (aiJobs (store finished_job) ! 0) = ''a''
     \<and> terminal (status (aiJobs (store finished_job) ! 0))"
    using l id t by (simp add: ai_job_message_def)
  note c = terminal_job_update_applied [where m = ?m and jid = "''a''" and st = "''generating''"
      and i = 0 and w = finished_job and now = "''t2''" and w' = finished_job, THEN mp, OF pre]
  have r: "msg_result ?m = None"
    by (simp add: ai_job_message_def)
  have s: "status (aiJobs (store (handleMessage ''t2'' ?m finished_job)) ! 0) = ''generating''"
    using c [THEN conjunct1] r by simp
  from t s c [THEN conjunct2, THEN conjunct2] show ?thesis by (intro conjI)
qed

text \<open>The claim as stated fails: job \<open>a\<close> is \<open>completed\<close>, a message then sets it
  back to \<open>starting\<close>, and neither a toast nor a console line reports an error.\<close>

theorem terminal_job_is_updated:
  "terminal ''completed''
   \<and> map status (aiJobs (store finished_job)) = [''completed'']
   \<and> map status (aiJobs (store (handleMessage ''t2'' (ai_job_message ''a'' ''starting'') finished_job)))
       = [''starting'']
   \<and> toasts (handleMessage ''t2'' (ai_job_message ''a'' ''starting'') finished_job) = []
   \<and> console (handleMessage ''t2'' (ai_job_message ''a'' ''starting'') finished_job) = []"
proof -
  have t: "terminal ''completed''"
    by (simp add: terminal_def)
  have s: "map status (aiJobs (store (handleMessage ''t2'' (ai_job_message ''a'' ''starting'') finished_job)))
       = [''starting'']"
    by (simp add: finished_job_def handle_all_def handleMessage_def handle_ai_job_def ai_job_message_def
      initial_world_def initial_AppState_def addAIJob_def newJob_def or_default_def
      updateAIJob_def spread_AIJob_def status_updates_def spread_def spread_opt_def)
  have q: "toasts (handleMessage ''t2'' (ai_job_message ''a'' ''starting'') finished_job) = []"
    "console (handleMessage ''t2'' (ai_job_message ''a'' ''starting'') finished_job) = []"
    by (simp_all add: finished_job_def handle_all_def handleMessage_def handle_ai_job_def
        ai_job_message_def initial_world_def)
  from t finished_job_statuses s q show ?thesis by (intro conjI)
qed

text \<open>
  Claim C3, as amended. After a close the hook retries connecting after a fixed wait. While
  fewer than \<open>MAX_RECONNECT_ATTEMPTS\<close> (10) attempts are counted, \<^verbatim>\<open>onclose\<close> counts
  one more and sets one timer of \<open>RECONNECT_INTERVAL\<close> (5000 ms), whatever the count; when
  that timer fires \<^verbatim>\<open>connect\<close> runs, and a socket to \<open>WS_URL\<close> is constructed and is
  connecting. At the bound \<^verbatim>\<open>onclose\<close> sets no timer, constructs no socket and shows
  the error toast. \<^verbatim>\<open>onopen\<close> resets the count to zero. In a run with no open, the
  timers set are at most 10 less the attempts already counted, and the sockets constructed
  at most that many more than the timers pending at its start. Over rounds of close, timer,
  connect and open, any number of sockets is constructed, each round ending on an open
  socket.
\<close>

theorem reconnect_policy:
  "(reconnectAttempts w < MAX_RECONNECT_ATTEMPTS \<longrightarrow>
      timers (onclose w) = timers w @ [(next_timer w, RECONNECT_INTERVAL)]
      \<and> reconnectAttempts (onclose w) = reconnectAttempts w + 1
      \<and> toasts (onclose w) = toasts w
      \<and> (\<forall>c. timer_fires (next_timer w) c (onclose w)
               = connect c (clearTimeout (next_timer w) (onclose w)))
      \<and> ws (timer_fires (next_timer w) True (onclose w)) = Some CONNECTING
      \<and> sockets (timer_fires (next_timer w) True (onclose w)) = sockets w @ [WS_URL])
   \<and> (MAX_RECONNECT_ATTEMPTS \<le> reconnectAttempts w \<longrightarrow>
      timers (onclose w) = timers w
      \<and> next_timer (onclose w) = next_timer w
      \<and> sockets (onclose w) = sockets w
      \<and> toasts (onclose w)
           = toasts w @ [(toast_error, ''WebSocket connection failed. Please refresh the page.'')])
   \<and> RECONNECT_INTERVAL = 5000 \<and> MAX_RECONNECT_ATTEMPTS = 10
   \<and> reconnectAttempts (onopen w) = 0
   \<and> (Opened \<notin> set evs \<and> reconnectAttempts w \<le> MAX_RECONNECT_ATTEMPTS \<longrightarrow>
        next_timer (run json_parse evs w) - next_timer w
          \<le> MAX_RECONNECT_ATTEMPTS - reconnectAttempts w
        \<and> length (sockets (run json_parse evs w))
          \<le> length (sockets w) + length (timers w)
               + (MAX_RECONNECT_ATTEMPTS - reconnectAttempts w))
   \<and> (reconnectAttempts w < MAX_RECONNECT_ATTEMPTS \<longrightarrow>
        (\<forall>n. sockets (run json_parse (reconnect_cycles (next_timer w) n) w)
               = sockets w @ replicate n WS_URL)
        \<and> ws (run json_parse (reconnect_cycles (next_timer w) 1) w) = Some OPEN)"
proof -
  have retry: "timers (onclose w) = timers w @ [(next_timer w, RECONNECT_INTERVAL)]
      \<and> reconnectAttempts (onclose w) = reconnectAttempts w + 1
      \<and> toasts (onclose w) = toasts w
      \<and> (\<forall>c. timer_fires (next_timer w) c (onclose w)
               = connect c (clearTimeout (next_timer w) (onclose w)))
      \<and> ws (timer_fires (next_timer w) True (onclose w)) = Some CONNECTING
      \<and> sockets (timer_fires (next_timer w) True (onclose w)) = sockets w @ [WS_URL]"
    if a: "reconnectAttempts w < MAX_RECONNECT_ATTEMPTS"
  proof -
    note f = scheduled_timer_connects [OF a]
    have "ws (timer_fires (next_timer w) True (onclose w)) = Some CONNECTING"
      "sockets (timer_fires (next_timer w) True (onclose w)) = sockets w @ [WS_URL]"
      by (simp_all add: f connect_constructed onclose_retry [OF a])
    with f onclose_retry [OF a] show ?thesis by simp
  qed
  have give_up: "timers (onclose w) = timers w
      \<and> next_timer (onclose w) = next_timer w
      \<and> sockets (onclose w) = sockets w
      \<and> toasts (onclose w)
           = toasts w @ [(toast_error, ''WebSocket connection failed. Please refresh the page.'')]"
    if "MAX_RECONNECT_ATTEMPTS \<le> reconnectAttempts w"
  proof -
    from that have "\<not> reconnectAttempts w < MAX_RECONNECT_ATTEMPTS" by simp
    from onclose_give_up [OF this] show ?thesis by simp
  qed
  have numbers: "RECONNECT_INTERVAL = 5000 \<and> MAX_RECONNECT_ATTEMPTS = 10"
    by (simp add: RECONNECT_INTERVAL_def MAX_RECONNECT_ATTEMPTS_def)
  have reset: "reconnectAttempts (onopen w) = 0"
    by (rule onopen_refs)
  have bound: "next_timer (run json_parse evs w) - next_timer w
          \<le> MAX_RECONNECT_ATTEMPTS - reconnectAttempts w
        \<and> length (sockets (run json_parse evs w))
          \<le> length (sockets w) + length (timers w)
               + (MAX_RECONNECT_ATTEMPTS - reconnectAttempts w)"
    if "Opened \<notin> set evs" "reconnectAttempts w \<le> MAX_RECONNECT_ATTEMPTS"
    using run_without_open [OF that, of json_parse] by linarith
  have unbounded: "(\<forall>n. sockets (run json_parse (reconnect_cycles (next_timer w) n) w)
               = sockets w @ replicate n WS_URL)
        \<and> ws (run json_parse (reconnect_cycles (next_timer w) 1) w) = Some OPEN"
    if a: "reconnectAttempts w < MAX_RECONNECT_ATTEMPTS"
    using reconnects_unbounded [OF a, of json_parse] reconnect_cycle(2) [OF a, of json_parse]
    by simp
  from retry give_up numbers reset bound unbounded show ?thesis by blast
qed

theorem reconnect_policy_witness:
  "timers (onclose initial_world) = [(1, 5000)]
   \<and> reconnectAttempts (onclose initial_world) = 1
   \<and> ws (timer_fires 1 True (onclose initial_world)) = Some CONNECTING
   \<and> sockets (timer_fires 1 True (onclose initial_world)) = [WS_URL]
   \<and> toasts (onclose (initial_world\<lparr>reconnectAttempts := 10\<rparr>))
       = [(toast_error, ''WebSocket connection failed. Please refresh the page.'')]
   \<and> timers (onclose (initial_world\<lparr>reconnectAttempts := 10\<rparr>)) = []
   \<and> next_timer (run example_parse (replicate 12 Closed) initial_world) - 1 \<le> 10
   \<and> length (sockets (run example_parse (replicate 12 Closed) initial_world)) \<le> 10
   \<and> sockets (run example_parse (reconnect_cycles 1 3) initial_world) = [WS_URL, WS_URL, WS_URL]
   \<and> ws (run example_parse (reconnect_cycles 1 1) initial_world) = Some OPEN"
proof -
  let ?w = "initial_world\<lparr>reconnectAttempts := 10\<rparr>"
  note p0 = reconnect_policy [where w = initial_world and evs = "replicate 12 Closed"
      and json_parse = example_parse]
  note p10 = reconnect_policy [where w = ?w and evs = "[]" and json_parse = example_parse]
  have i: "reconnectAttempts initial_world = 0" "timers initial_world = []"
    "next_timer initial_world = 1" "toasts initial_world = []" "sockets initial_world = []"
    by (simp_all add: initial_world_def)
  have numbers: "RECONNECT_INTERVAL = 5000" "MAX_RECONNECT_ATTEMPTS = 10"
    using p0 by simp_all
  have lt: "reconnectAttempts initial_world < MAX_RECONNECT_ATTEMPTS"
    by (simp add: i numbers)
  have ge: "MAX_RECONNECT_ATTEMPTS \<le> reconnectAttempts ?w"
    by (simp add: numbers)
  have tr: "Opened \<notin> set (replicate 12 Closed) \<and> reconnectAttempts initial_world \<le> MAX_RECONNECT_ATTEMPTS"
    by (simp add: i)
  note r = p0 [THEN conjunct1, THEN mp, OF lt]
  have a1: "timers (onclose initial_world) = [(1, 5000)]"
    using r [THEN conjunct1] by (simp add: i numbers)
  have a2: "reconnectAttempts (onclose initial_world) = 1"
    using r [THEN conjunct2, THEN conjunct1] by (simp add: i)
  have a3: "ws (timer_fires 1 True (onclose initial_world)) = Some CONNECTING"
    using r [THEN conjunct2, THEN conjunct2, THEN conjunct2, THEN conjunct2, THEN conjunct1]
    by (simp add: i)
  have a4: "sockets (timer_fires 1 True (onclose initial_world)) = [WS_URL]"
    using r [THEN conjunct2, THEN conjunct2, THEN conjunct2, THEN conjunct2, THEN conjunct2]
    by (simp add: i)
  have b: "toasts (onclose ?w) = [(toast_error, ''WebSocket connection failed. Please refresh the page.'')]
           \<and> timers (onclose ?w) = []"
    using p10 [THEN conjunct2, THEN conjunct1, THEN mp, OF ge] by (simp add: initial_world_def)
  have c: "next_timer (run example_parse (replicate 12 Closed) initial_world) - 1 \<le> 10
           \<and> length (sockets (run example_parse (replicate 12 Closed) initial_world)) \<le> 10"
    using p0 [THEN conjunct2, THEN conjunct2, THEN conjunct2, THEN conjunct2, THEN conjunct2,
        THEN conjunct1, THEN mp, OF tr]
    by (simp add: i numbers)
  note u = p0 [THEN conjunct2, THEN conjunct2, THEN conjunct2, THEN conjunct2, THEN conjunct2,
        THEN conjunct2, THEN mp, OF lt]
  have d: "sockets (run example_parse (reconnect_cycles 1 3) initial_world) = [WS_URL, WS_URL, WS_URL]"
    using u [THEN conjunct1, THEN spec, of 3] by (simp add: i numeral_3_eq_3)
  have e: "ws (run example_parse (reconnect_cycles 1 1) initial_world) = Some OPEN"
    using u [THEN conjunct2] by (simp only: i)
  from a1 a2 a3 a4 b c d e show ?thesis by simp
qed

text \<open>The claim as stated fails on the backoff: the wait before the second attempt is
  the wait before the first.\<close>

theorem reconnect_wait_is_constant:
  "timers (run example_parse [Closed] initial_world) = [(1, 5000)]
   \<and> timers (run example_parse [Closed, TimerFired 1 True, Closed] initial_world) = [(2, 5000)]
   \<and> \<not> snd (last (timers (run example_parse [Closed] initial_world)))
         < snd (last (timers (run example_parse [Closed, TimerFired 1 True, Closed] initial_world)))"
proof -
  have a: "timers (run example_parse [Closed] initial_world) = [(1, 5000)]"
    by (simp add: run_def onclose_def Let_def setTimeout_def console_write_def socket_state_def
        initial_world_def MAX_RECONNECT_ATTEMPTS_def RECONNECT_INTERVAL_def)
  have b: "timers (run example_parse [Closed, TimerFired 1 True, Closed] initial_world) = [(2, 5000)]"
    by (simp add: run_def onclose_def Let_def setTimeout_def console_write_def timer_fires_def
        clearTimeout_def connect_def socket_state_def initial_world_def
        MAX_RECONNECT_ATTEMPTS_def RECONNECT_INTERVAL_def)
  from a b show ?thesis by simp
qed

text \<open>
  Claim C4, as amended. The handler dispatches on the type, and the types it knows are
  \<open>status\<close>, \<open>log\<close> and \<open>ai_job\<close>. A message of any other type changes neither the
  store nor the toasts (one console line is written). A \<open>status\<close> message with data
  merges the data into the pipeline status and touches neither jobs nor toasts; a \<open>log\<close>
  message with a text shows one toast with that text and leaves the store alone; an
  \<open>ai_job\<close> message with a job id and a status adds the job (a new id, status
  \<open>starting\<close>) or updates the jobs of that id.
\<close>

theorem handleMessage_dispatch:
  "(msg_type m \<noteq> ''status'' \<and> msg_type m \<noteq> ''log'' \<and> msg_type m \<noteq> ''ai_job'' \<longrightarrow>
      handleMessage now m w = console_write console_log ''Unknown message type:'' w
      \<and> store (handleMessage now m w) = store w
      \<and> toasts (handleMessage now m w) = toasts w)
   \<and> (\<forall>d. msg_type m = ''status'' \<and> msg_data m = Some d \<longrightarrow>
        pipelineStatus (store (handleMessage now m w))
          = spread_PipelineStatus (pipelineStatus (store w)) d
        \<and> aiJobs (store (handleMessage now m w)) = aiJobs (store w)
        \<and> toasts (handleMessage now m w) = toasts w)
   \<and> (\<forall>t. msg_type m = ''log'' \<and> msg_message m = Some t \<and> t \<noteq> [] \<longrightarrow>
        store (handleMessage now m w) = store w
        \<and> (\<exists>k. toasts (handleMessage now m w) = toasts w @ [(k, t)]))
   \<and> (\<forall>jid st. msg_type m = ''ai_job'' \<and> msg_job_id m = Some jid \<and> msg_status m = Some st
          \<and> jid \<noteq> [] \<and> st \<noteq> [] \<longrightarrow>
        store (handleMessage now m w)
          = (if (\<forall>j\<in>set (aiJobs (store w)). job_id j \<noteq> jid) \<and> st = ''starting''
             then addAIJob (newJob now m) (store w)
             else updateAIJob jid (message_updates m st) (store w)))"
proof -
  have unknown: "handleMessage now m w = console_write console_log ''Unknown message type:'' w
      \<and> store (handleMessage now m w) = store w
      \<and> toasts (handleMessage now m w) = toasts w"
    if "msg_type m \<noteq> ''status''" "msg_type m \<noteq> ''log''" "msg_type m \<noteq> ''ai_job''"
    using that by (simp add: handleMessage_def)
  have pipeline: "pipelineStatus (store (handleMessage now m w))
          = spread_PipelineStatus (pipelineStatus (store w)) d
        \<and> aiJobs (store (handleMessage now m w)) = aiJobs (store w)
        \<and> toasts (handleMessage now m w) = toasts w"
    if "msg_type m = ''status''" "msg_data m = Some d" for d
    using that by (simp add: handleMessage_def setPipelineStatus_def)
  have logged: "store (handleMessage now m w) = store w
        \<and> (\<exists>k. toasts (handleMessage now m w) = toasts w @ [(k, t)])"
    if "msg_type m = ''log''" "msg_message m = Some t" "t \<noteq> []" for t
    using that by (simp add: handleMessage_def toast_def)
  have job: "store (handleMessage now m w)
          = (if (\<forall>j\<in>set (aiJobs (store w)). job_id j \<noteq> jid) \<and> st = ''starting''
             then addAIJob (newJob now m) (store w)
             else updateAIJob jid (message_updates m st) (store w))"
    if "msg_type m = ''ai_job''" "msg_job_id m = Some jid" "msg_status m = Some st"
      "jid \<noteq> []" "st \<noteq> []" for jid st
    unfolding handleMessage_ai_job [OF that] by (rule store_handle_ai_job)
  from unknown pipeline logged job show ?thesis by blast
qed

theorem handleMessage_dispatch_witness:
  "store (handleMessage ''t0'' ((ai_job_message ''a'' ''starting'')\<lparr>msg_type := ''ping''\<rparr>)
            two_jobs) = store two_jobs
   \<and> toasts (handleMessage ''t0'' ((ai_job_message ''a'' ''starting'')\<lparr>msg_type := ''ping''\<rparr>)
            two_jobs) = toasts two_jobs
   \<and> store (handleMessage ''t2'' (ai_job_message ''c'' ''starting'') two_jobs)
       = addAIJob (newJob ''t2'' (ai_job_message ''c'' ''starting'')) (store two_jobs)"
proof -
  let ?ping = "(ai_job_message ''a'' ''starting'')\<lparr>msg_type := ''ping''\<rparr>"
  let ?c = "ai_job_message ''c'' ''starting''"
  have p: "msg_type ?ping \<noteq> ''status'' \<and> msg_type ?ping \<noteq> ''log'' \<and> msg_type ?ping \<noteq> ''ai_job''"
    by (simp add: ai_job_message_def)
  have c: "msg_type ?c = ''ai_job'' \<and> msg_job_id ?c = Some ''c'' \<and> msg_status ?c = Some ''starting''
          \<and> ''c'' \<noteq> [] \<and> ''starting'' \<noteq> []"
    by (simp add: ai_job_message_def)
  note u = handleMessage_dispatch [where m = ?ping and now = "''t0''" and w = two_jobs,
      THEN conjunct1, THEN mp, OF p]
  note j = handleMessage_dispatch [where m = ?c and now = "''t2''" and w = two_jobs,
      THEN conjunct2, THEN conjunct2, THEN conjunct2, rule_format, OF c]
  have added: "store (handleMessage ''t2'' ?c two_jobs) = addAIJob (newJob ''t2'' ?c) (store two_jobs)"
    using j two_jobs_no_c by simp
  from u [THEN conjunct2, THEN conjunct1] u [THEN conjunct2, THEN conjunct2] added
  show ?thesis by (intro conjI)
qed

text \<open>The claim as stated fails on the third type: a \<open>job_event\<close> message that names
  a new job in status \<open>starting\<close> changes nothing in the store, and the same message
  with type \<open>ai_job\<close>, a type outside the claimed set, does.\<close>

theorem job_event_is_not_dispatched:
  "store (handleMessage ''t0'' ((ai_job_message ''a'' ''starting'')\<lparr>msg_type := ''job_event''\<rparr>)
            initial_world) = store initial_world
   \<and> store (handleMessage ''t0'' (ai_job_message ''a'' ''starting'') initial_world)
       \<noteq> store initial_world"
proof -
  have a: "store (handleMessage ''t0'' ((ai_job_message ''a'' ''starting'')\<lparr>msg_type := ''job_event''\<rparr>)
            initial_world) = store initial_world"
    by (simp add: handleMessage_def ai_job_message_def)
  have "aiJobs (store (handleMessage ''t0'' (ai_job_message ''a'' ''starting'') initial_world)) \<noteq> []"
    by (simp add: handleMessage_def handle_ai_job_def ai_job_message_def
      initial_world_def initial_AppState_def addAIJob_def)
  moreover have "aiJobs (store initial_world) = []"
    by (simp add: initial_world_def initial_AppState_def)
  ultimately have b: "store (handleMessage ''t0'' (ai_job_message ''a'' ''starting'') initial_world)
       \<noteq> store initial_world"
    by metis
  from a b show ?thesis by (intro conjI)
qed

text \<open>
  Claim C5. A job the message handler adds to the store has status \<open>starting\<close>: the
  handler leaves the number of jobs as it is, or puts exactly the \<^verbatim>\<open>newJob\<close> literal
  (status \<open>starting\<close>) in front, and then only for a message whose status is
  \<open>starting\<close>. A message whose status is not \<open>starting\<close> and whose job id is not in the
  store leaves the job list as it is.
\<close>

theorem handleMessage_creates_starting:
  "(length (aiJobs (store (handleMessage now m w))) = length (aiJobs (store w))
    \<or> (aiJobs (store (handleMessage now m w)) = newJob now m # aiJobs (store w)
        \<and> status (newJob now m) = ''starting'' \<and> msg_status m = Some ''starting''))
   \<and> (msg_status m \<noteq> Some ''starting''
        \<and> (\<forall>j\<in>set (aiJobs (store w)). Some (job_id j) \<noteq> msg_job_id m)
      \<longrightarrow> aiJobs (store (handleMessage now m w)) = aiJobs (store w))"
proof (cases m rule: message_cases)
  case (job jid st)
  note h = handleMessage_ai_job [OF job, of now w]
  have starting: "status (newJob now m) = ''starting''"
    by (simp add: newJob_def)
  have created: "length (aiJobs (store (handleMessage now m w))) = length (aiJobs (store w))
    \<or> (aiJobs (store (handleMessage now m w)) = newJob now m # aiJobs (store w)
        \<and> status (newJob now m) = ''starting'' \<and> msg_status m = Some ''starting'')"
  proof (cases "(\<forall>j\<in>set (aiJobs (store w)). job_id j \<noteq> jid) \<and> st = ''starting''")
    case True
    then have "store (handleMessage now m w) = addAIJob (newJob now m) (store w)"
      by (simp add: h store_handle_ai_job_add)
    then have "aiJobs (store (handleMessage now m w)) = newJob now m # aiJobs (store w)"
      by (simp add: addAIJob_def)
    with True starting job(3) show ?thesis by simp
  next
    case False
    then have "store (handleMessage now m w) = updateAIJob jid (message_updates m st) (store w)"
      unfolding h by (intro store_handle_ai_job_update) blast
    then show ?thesis by (simp add: updateAIJob_def)
  qed
  have none: "aiJobs (store (handleMessage now m w)) = aiJobs (store w)"
    if "msg_status m \<noteq> Some ''starting''"
      and "\<forall>j\<in>set (aiJobs (store w)). Some (job_id j) \<noteq> msg_job_id m"
  proof -
    from that job have a: "st \<noteq> ''starting''" and b: "\<forall>j\<in>set (aiJobs (store w)). job_id j \<noteq> jid"
      by auto
    from a have "store (handleMessage now m w) = updateAIJob jid (message_updates m st) (store w)"
      unfolding h by (intro store_handle_ai_job_update) blast
    with b show ?thesis
      by (simp add: updateAIJob_no_match)
  qed
  from created none show ?thesis by blast
next
  case ignored
  then show ?thesis by (simp add: handleMessage_ai_job_ignored)
next
  case other
  then show ?thesis by (simp add: aiJobs_handleMessage_other)
qed

theorem handleMessage_creates_starting_witness:
  "map status (aiJobs (store (handleMessage ''t0'' (ai_job_message ''a'' ''starting'') initial_world)))
     = [''starting'']
   \<and> aiJobs (store (handleMessage ''t2'' (ai_job_message ''c'' ''generating'') two_jobs))
     = aiJobs (store two_jobs)"
proof -
  have fresh: "\<forall>j\<in>set (aiJobs (store two_jobs)).
                 Some (job_id j) \<noteq> msg_job_id (ai_job_message ''c'' ''generating'')"
    using two_jobs_no_c by (simp add: ai_job_message_def)
  have st: "msg_status (ai_job_message ''c'' ''generating'') \<noteq> Some ''starting''"
    by (simp add: ai_job_message_def)
  from handleMessage_creates_starting [of "''t2''" "ai_job_message ''c'' ''generating''" two_jobs]
    st fresh
  have c: "aiJobs (store (handleMessage ''t2'' (ai_job_message ''c'' ''generating'') two_jobs))
     = aiJobs (store two_jobs)" by blast
  have e: "aiJobs (store initial_world) = []"
    by (simp add: initial_world_def initial_AppState_def)
  have n: "length (aiJobs (store (handleMessage ''t0'' (ai_job_message ''a'' ''starting'') initial_world))) = 1"
    by (simp add: handleMessage_def handle_ai_job_def ai_job_message_def
      initial_world_def initial_AppState_def addAIJob_def)
  from handleMessage_creates_starting [of "''t0''" "ai_job_message ''a'' ''starting''" initial_world] e n
  have "aiJobs (store (handleMessage ''t0'' (ai_job_message ''a'' ''starting'') initial_world))
          = [newJob ''t0'' (ai_job_message ''a'' ''starting'')]
        \<and> status (newJob ''t0'' (ai_job_message ''a'' ''starting'')) = ''starting''"
    by simp
  then have a: "map status (aiJobs (store (handleMessage ''t0'' (ai_job_message ''a'' ''starting'') initial_world)))
     = [''starting'']" by simp
  from a c show ?thesis by blast
qed

text \<open>
  Claim C6, as amended. Over every sequence of messages whose result payloads name no other
  job, the job ids of the store stay pairwise distinct. The handler changes the number of
  jobs only for a message whose job id is not in the store; and a message for an id that is
  in the store (a repeated \<open>starting\<close> message too) leaves the list of job ids as it is.
\<close>

theorem job_ids_stay_distinct:
  "(distinct (map job_id (aiJobs (store w))) \<and> (\<forall>x\<in>set ms. keeps_job_id (snd x))
      \<longrightarrow> distinct (map job_id (aiJobs (store (handle_all ms w)))))
   \<and> (length (aiJobs (store (handleMessage now m w))) \<noteq> length (aiJobs (store w))
      \<longrightarrow> (\<forall>j\<in>set (aiJobs (store w)). Some (job_id j) \<noteq> msg_job_id m))
   \<and> ((\<exists>j\<in>set (aiJobs (store w)). Some (job_id j) = msg_job_id m) \<and> keeps_job_id m
      \<longrightarrow> map job_id (aiJobs (store (handleMessage now m w))) = map job_id (aiJobs (store w)))"
  using distinct_handle_all [of w ms] added_only_if_absent [of now m w]
    job_ids_handleMessage_existing [of w m now]
  by blast

theorem job_ids_stay_distinct_witness:
  "distinct (map job_id (aiJobs (store (handle_all
      [(''t0'', ai_job_message ''a'' ''starting''), (''t1'', ai_job_message ''b'' ''starting''),
       (''t2'', ai_job_message ''a'' ''starting'')] initial_world))))
   \<and> map job_id (aiJobs (store (handleMessage ''t2'' (ai_job_message ''a'' ''starting'') two_jobs)))
       = [''b'', ''a'']"
proof -
  let ?ms = "[(''t0'', ai_job_message ''a'' ''starting''), (''t1'', ai_job_message ''b'' ''starting''),
       (''t2'', ai_job_message ''a'' ''starting'')]"
  let ?m = "ai_job_message ''a'' ''starting''"
  have d0: "distinct (map job_id (aiJobs (store initial_world)))"
    by (simp add: initial_world_def initial_AppState_def)
  have k: "\<forall>x\<in>set ?ms. keeps_job_id (snd x)"
    by (simp add: keeps_job_id_def ai_job_message_def)
  have "''a'' \<in> set (map job_id (aiJobs (store two_jobs)))"
    by (simp only: two_jobs_ids) simp
  then obtain j where "j \<in> set (aiJobs (store two_jobs))" "job_id j = ''a''"
    by (auto simp only: set_map)
  then have e: "\<exists>j\<in>set (aiJobs (store two_jobs)). Some (job_id j) = msg_job_id ?m"
    by (auto simp add: ai_job_message_def)
  have km: "keeps_job_id ?m"
    by (simp add: keeps_job_id_def ai_job_message_def)
  note c = job_ids_stay_distinct [where w = initial_world and ms = ?ms, THEN conjunct1, THEN mp,
      OF conjI, OF d0 k]
  note u = job_ids_stay_distinct [where w = two_jobs and m = ?m and now = "''t2''",
      THEN conjunct2, THEN conjunct2, THEN mp, OF conjI, OF e km]
  from c u [unfolded two_jobs_ids] show ?thesis by (intro conjI)
qed

text \<open>The claim as stated fails for a result payload with a \<^verbatim>\<open>job_id\<close> key:
  \<^verbatim>\<open>Object.assign\<close> copies the key into the updates, and the update of job \<open>a\<close>
  turns it into a second job \<open>b\<close>.\<close>

theorem payload_job_id_duplicates_job:
  "distinct (map job_id (aiJobs (store two_jobs)))
   \<and> map job_id (aiJobs (store (handleMessage ''t2'' renaming_message two_jobs))) = [''b'', ''b'']
   \<and> \<not> distinct (map job_id (aiJobs (store (handle_all
        [(''t0'', ai_job_message ''a'' ''starting''), (''t1'', ai_job_message ''b'' ''starting''),
         (''t2'', renaming_message)] initial_world))))"
proof -
  have d: "distinct (map job_id (aiJobs (store two_jobs)))"
    by (simp add: two_jobs_ids)
  have r: "map job_id (aiJobs (store (handleMessage ''t2'' renaming_message two_jobs))) = [''b'', ''b'']"
    by (simp add: two_jobs_def handle_all_def handleMessage_def handle_ai_job_def ai_job_message_def
      renaming_message_def initial_world_def initial_AppState_def addAIJob_def newJob_def
      or_default_def updateAIJob_def spread_AIJob_def status_updates_def object_assign_def
      spread_def spread_opt_def)
  have "handle_all [(''t0'', ai_job_message ''a'' ''starting''), (''t1'', ai_job_message ''b'' ''starting''),
         (''t2'', renaming_message)] initial_world = handleMessage ''t2'' renaming_message two_jobs"
    by (simp add: two_jobs_def handle_all_def)
  with r have n: "\<not> distinct (map job_id (aiJobs (store (handle_all
        [(''t0'', ai_job_message ''a'' ''starting''), (''t1'', ai_job_message ''b'' ''starting''),
         (''t2'', renaming_message)] initial_world))))"
    by simp
  from d r n show ?thesis by (intro conjI)
qed

text \<open>
  Claim C7, as amended. The indication rendered for status \<open>error\<close> is the one rendered
  for status \<open>failed\<close>: the same icon, the same colour classes, and for a job message
  with a text the same kind of notification (an error toast with that text).
\<close>

theorem error_and_failed_rendered_alike:
  "getStatusIcon ''error'' = getStatusIcon ''failed''
   \<and> getStatusColor ''error'' = getStatusColor ''failed''
   \<and> (msg_type m = ''ai_job'' \<and> jid \<noteq> [] \<and> t \<noteq> [] \<and> msg_job_id m = Some jid \<and> msg_message m = Some t
      \<longrightarrow> toasts (handleMessage now (m\<lparr>msg_status := Some ''error''\<rparr>) w) = toasts w @ [(toast_error, t)]
        \<and> toasts (handleMessage now (m\<lparr>msg_status := Some ''failed''\<rparr>) w) = toasts w @ [(toast_error, t)])"
proof -
  have icon: "getStatusIcon ''error'' = getStatusIcon ''failed''"
    by (simp add: getStatusIcon_def)
  have colour: "getStatusColor ''error'' = getStatusColor ''failed''"
    by (simp add: getStatusColor_def)
  have notif: "toasts (handleMessage now (m\<lparr>msg_status := Some st\<rparr>) w) = toasts w @ [(toast_error, t)]"
    if "msg_type m = ''ai_job''" "jid \<noteq> []" "t \<noteq> []" "msg_job_id m = Some jid"
       "msg_message m = Some t" "st = ''error'' \<or> st = ''failed''" for st
  proof -
    have "handleMessage now (m\<lparr>msg_status := Some st\<rparr>) w
            = handle_ai_job now (m\<lparr>msg_status := Some st\<rparr>) jid st w"
      using that by (intro handleMessage_ai_job) auto
    with that show ?thesis by (auto simp add: toasts_handle_ai_job)
  qed
  from icon colour notif show ?thesis by blast
qed

theorem error_and_failed_rendered_alike_witness:
  "toasts (handleMessage ''t2''
      ((ai_job_message ''a'' ''rendering'')\<lparr>msg_message := Some ''boom'', msg_status := Some ''error''\<rparr>)
      initial_world) = [(toast_error, ''boom'')]
   \<and> toasts (handleMessage ''t2''
      ((ai_job_message ''a'' ''rendering'')\<lparr>msg_message := Some ''boom'', msg_status := Some ''failed''\<rparr>)
      initial_world) = [(toast_error, ''boom'')]"
proof -
  let ?m = "(ai_job_message ''a'' ''rendering'')\<lparr>msg_message := Some ''boom''\<rparr>"
  have m: "msg_type ?m = ''ai_job'' \<and> ''a'' \<noteq> [] \<and> ''boom'' \<noteq> [] \<and> msg_job_id ?m = Some ''a''
           \<and> msg_message ?m = Some ''boom''"
    by (simp add: ai_job_message_def)
  have e: "toasts initial_world = []"
    by (simp add: initial_world_def)
  from error_and_failed_rendered_alike [of ?m "''a''" "''boom''" "''t2''" initial_world] m e
  show ?thesis by simp
qed

text \<open>The claim as stated fails: at status \<open>error\<close> and status \<open>failed\<close> no part of
  the indication differs.\<close>

theorem error_rendered_as_failed:
  "\<not> (getStatusIcon ''error'' \<noteq> getStatusIcon ''failed''
      \<or> getStatusColor ''error'' \<noteq> getStatusColor ''failed''
      \<or> map fst (toasts (handleMessage ''t1''
            ((ai_job_message ''a'' ''error'')\<lparr>msg_message := Some ''unreachable''\<rparr>) initial_world))
         \<noteq> map fst (toasts (handleMessage ''t1''
            ((ai_job_message ''a'' ''failed'')\<lparr>msg_message := Some ''unreachable''\<rparr>) initial_world)))"
  by (simp add: getStatusIcon_def getStatusColor_def handleMessage_def handle_ai_job_def
      ai_job_message_def initial_world_def initial_AppState_def toast_def updateAIJob_def)

text \<open>
  Claim C8. Frame of \<^verbatim>\<open>updateAIJob(jobId, updates)\<close>: the job list keeps its length;
  at every position, a job whose id is not \<open>jobId\<close> is the job that was there; every
  other key of the store is unchanged; and when no job has the id \<open>jobId\<close> the whole
  store is unchanged.
\<close>

theorem updateAIJob_frame:
  "length (aiJobs (updateAIJob jobId updates s)) = length (aiJobs s)
   \<and> (\<forall>i < length (aiJobs s). job_id (aiJobs s ! i) \<noteq> jobId
         \<longrightarrow> aiJobs (updateAIJob jobId updates s) ! i = aiJobs s ! i)
   \<and> (updateAIJob jobId updates s)\<lparr>aiJobs := aiJobs s\<rparr> = s
   \<and> ((\<forall>j\<in>set (aiJobs s). job_id j \<noteq> jobId) \<longrightarrow> updateAIJob jobId updates s = s)"
proof -
  have len: "length (aiJobs (updateAIJob jobId updates s)) = length (aiJobs s)"
    by (simp add: updateAIJob_def)
  have others: "\<forall>i < length (aiJobs s). job_id (aiJobs s ! i) \<noteq> jobId
         \<longrightarrow> aiJobs (updateAIJob jobId updates s) ! i = aiJobs s ! i"
    by (simp add: updateAIJob_def)
  have rest: "(updateAIJob jobId updates s)\<lparr>aiJobs := aiJobs s\<rparr> = s"
    by (simp add: updateAIJob_def)
  have none: "(\<forall>j\<in>set (aiJobs s). job_id j \<noteq> jobId) \<longrightarrow> updateAIJob jobId updates s = s"
    using updateAIJob_no_match by blast
  from len others rest none show ?thesis by blast
qed

theorem updateAIJob_frame_witness:
  "length (aiJobs (updateAIJob ''a'' (status_updates ''generating'') (store two_jobs))) = 2
   \<and> aiJobs (updateAIJob ''a'' (status_updates ''generating'') (store two_jobs)) ! 0
       = aiJobs (store two_jobs) ! 0
   \<and> updateAIJob ''c'' (status_updates ''generating'') (store two_jobs) = store two_jobs"
proof -
  note fa = updateAIJob_frame [of "''a''" "status_updates ''generating''" "store two_jobs"]
  note fc = updateAIJob_frame [of "''c''" "status_updates ''generating''" "store two_jobs"]
  have l: "length (aiJobs (store two_jobs)) = 2"
    using arg_cong [OF two_jobs_ids, of length] by simp
  have "map job_id (aiJobs (store two_jobs)) ! 0 = ''b''"
    by (simp add: two_jobs_ids)
  then have i0: "job_id (aiJobs (store two_jobs) ! 0) \<noteq> ''a''"
    using l by simp
  have a1: "length (aiJobs (updateAIJob ''a'' (status_updates ''generating'') (store two_jobs))) = 2"
    using fa [THEN conjunct1] l by simp
  have a2: "aiJobs (updateAIJob ''a'' (status_updates ''generating'') (store two_jobs)) ! 0
       = aiJobs (store two_jobs) ! 0"
    using fa [THEN conjunct2, THEN conjunct1, rule_format, of 0] l i0 by simp
  have c: "updateAIJob ''c'' (status_updates ''generating'') (store two_jobs) = store two_jobs"
    using fc [THEN conjunct2, THEN conjunct2, THEN conjunct2, rule_format] two_jobs_no_c by simp
  from a1 a2 c show ?thesis by (intro conjI)
qed

text \<open>
  Claim C9. A frame that \<^verbatim>\<open>JSON.parse\<close> rejects is caught: the store, the toasts, the
  socket ref, the reconnect refs, the timers and the frames sent are what they were (the
  handler has not run and nothing was closed), one error line goes to the console, and a
  later frame that parses is handled as it would have been without the bad one.
\<close>

theorem onmessage_invalid_json:
  "json_parse d = None \<longrightarrow>
     store (onmessage json_parse now d w) = store w
   \<and> toasts (onmessage json_parse now d w) = toasts w
   \<and> ws (onmessage json_parse now d w) = ws w
   \<and> reconnectAttempts (onmessage json_parse now d w) = reconnectAttempts w
   \<and> reconnectTimeout (onmessage json_parse now d w) = reconnectTimeout w
   \<and> timers (onmessage json_parse now d w) = timers w
   \<and> sent (onmessage json_parse now d w) = sent w
   \<and> console (onmessage json_parse now d w)
       = console w @ [(console_error, ''Error parsing WebSocket message:'')]
   \<and> (\<forall>d' now' m. json_parse d' = Some m \<longrightarrow>
          store (onmessage json_parse now' d' (onmessage json_parse now d w))
            = store (handleMessage now' m w)
        \<and> toasts (onmessage json_parse now' d' (onmessage json_parse now d w))
            = toasts (handleMessage now' m w))"
proof
  assume bad: "json_parse d = None"
  let ?w = "console_write console_error ''Error parsing WebSocket message:'' w"
  have caught: "onmessage json_parse now d w = ?w"
    using bad by (simp add: onmessage_def)
  have refs: "store ?w = store w" "toasts ?w = toasts w" "ws ?w = ws w"
    "reconnectAttempts ?w = reconnectAttempts w" "reconnectTimeout ?w = reconnectTimeout w"
    "timers ?w = timers w" "sent ?w = sent w"
    "console ?w = console w @ [(console_error, ''Error parsing WebSocket message:'')]"
    by (simp_all add: console_write_def)
  have later: "store (onmessage json_parse now' d' ?w) = store (handleMessage now' m w)
        \<and> toasts (onmessage json_parse now' d' ?w) = toasts (handleMessage now' m w)"
    if "json_parse d' = Some m" for d' now' m
  proof -
    have h: "onmessage json_parse now' d' ?w = handleMessage now' m ?w"
      using that by (simp add: onmessage_def)
    have s: "store (handleMessage now' m ?w) = store (handleMessage now' m w)"
      by (rule store_handleMessage_cong) simp
    have "toasts (handleMessage now' m ?w) = toasts ?w @ toasts (handleMessage now' m (w\<lparr>toasts := []\<rparr>))"
      by (rule toasts_handleMessage)
    also have "\<dots> = toasts (handleMessage now' m w)"
      by (simp add: toasts_handleMessage [of now' m w w])
    finally show ?thesis using h s by simp
  qed
  from refs later show "store (onmessage json_parse now d w) = store w
   \<and> toasts (onmessage json_parse now d w) = toasts w
   \<and> ws (onmessage json_parse now d w) = ws w
   \<and> reconnectAttempts (onmessage json_parse now d w) = reconnectAttempts w
   \<and> reconnectTimeout (onmessage json_parse now d w) = reconnectTimeout w
   \<and> timers (onmessage json_parse now d w) = timers w
   \<and> sent (onmessage json_parse now d w) = sent w
   \<and> console (onmessage json_parse now d w)
       = console w @ [(console_error, ''Error parsing WebSocket message:'')]
   \<and> (\<forall>d' now' m. json_parse d' = Some m \<longrightarrow>
          store (onmessage json_parse now' d' (onmessage json_parse now d w))
            = store (handleMessage now' m w)
        \<and> toasts (onmessage json_parse now' d' (onmessage json_parse now d w))
            = toasts (handleMessage now' m w))"
    unfolding caught by blast
qed

theorem onmessage_invalid_json_witness:
  "example_parse ''{bad'' = None
   \<and> store (onmessage example_parse ''t0'' ''{bad'' initial_world) = store initial_world
   \<and> toasts (onmessage example_parse ''t0'' ''{bad'' initial_world) = []
   \<and> ws (onmessage example_parse ''t0'' ''{bad'' initial_world) = None
   \<and> map job_id (aiJobs (store (onmessage example_parse ''t1'' ''start a''
         (onmessage example_parse ''t0'' ''{bad'' initial_world)))) = [''a'']"
proof -
  have bad: "example_parse ''{bad'' = None"
    and good: "example_parse ''start a'' = Some (ai_job_message ''a'' ''starting'')"
    by (simp_all add: example_parse_def)
  note c = onmessage_invalid_json [where json_parse = example_parse and d = "''{bad''"
      and now = "''t0''" and w = initial_world, THEN mp, OF bad]
  have s: "store (onmessage example_parse ''t0'' ''{bad'' initial_world) = store initial_world"
    using c by (elim conjE)
  have t: "toasts (onmessage example_parse ''t0'' ''{bad'' initial_world) = []"
    using c by (elim conjE) (simp add: initial_world_def)
  have k: "ws (onmessage example_parse ''t0'' ''{bad'' initial_world) = None"
    using c by (elim conjE) (simp add: initial_world_def)
  have "store (onmessage example_parse ''t1'' ''start a''
         (onmessage example_parse ''t0'' ''{bad'' initial_world))
        = store (handleMessage ''t1'' (ai_job_message ''a'' ''starting'') initial_world)"
    using c good by (elim conjE) blast
  then have l: "map job_id (aiJobs (store (onmessage example_parse ''t1'' ''start a''
         (onmessage example_parse ''t0'' ''{bad'' initial_world)))) = [''a'']"
    by (simp add: handleMessage_def handle_ai_job_def ai_job_message_def
      initial_world_def initial_AppState_def addAIJob_def newJob_def or_default_def)
  from bad s t k l show ?thesis by (intro conjI)
qed

text \<open>
  Claim C10. \<^verbatim>\<open>sendMessage\<close> sends only on an open socket. With no socket, or a
  socket that is connecting, closing or closed, it returns normally, writes the warning and
  sends nothing; whenever a call has sent something the socket was open and what was sent is
  the serialised message; and on an open socket the serialised message is sent.
\<close>

theorem sendMessage_only_when_open:
  "(ws w \<noteq> Some OPEN \<longrightarrow>
      sendMessage stringify message w
        = Inr (console_write console_warn ''WebSocket is not connected'' w)
      \<and> sent (console_write console_warn ''WebSocket is not connected'' w) = sent w)
   \<and> (\<forall>w'. sendMessage stringify message w = Inr w' \<and> sent w' \<noteq> sent w \<longrightarrow>
        ws w = Some OPEN \<and> (\<exists>frame. stringify message = Some frame \<and> sent w' = sent w @ [frame]))
   \<and> (\<forall>frame. ws w = Some OPEN \<and> stringify message = Some frame \<longrightarrow>
        sendMessage stringify message w = Inr (w\<lparr>sent := sent w @ [frame]\<rparr>))"
  by (auto simp add: sendMessage_def console_write_def split: option.splits)

theorem sendMessage_only_when_open_witness:
  "sendMessage Some ''ping'' initial_world
     = Inr (console_write console_warn ''WebSocket is not connected'' initial_world)
   \<and> sendMessage Some ''ping'' (connect True initial_world)
     = Inr (console_write console_warn ''WebSocket is not connected'' (connect True initial_world))
   \<and> map_sum id sent (sendMessage Some ''ping'' (initial_world\<lparr>ws := Some OPEN\<rparr>))
     = Inr [''ping'']"
proof -
  note not_open = sendMessage_only_when_open [THEN conjunct1, rule_format, THEN conjunct1]
  note is_open = sendMessage_only_when_open [THEN conjunct2, THEN conjunct2, rule_format]
  have closed: "ws initial_world \<noteq> Some OPEN"
    by (simp add: initial_world_def)
  have connecting: "ws (connect True initial_world) \<noteq> Some OPEN"
    by (simp add: connect_def)
  have opened: "ws (initial_world\<lparr>ws := Some OPEN\<rparr>) = Some OPEN \<and> Some ''ping'' = Some ''ping''"
    by simp
  have c: "map_sum id sent (sendMessage Some ''ping'' (initial_world\<lparr>ws := Some OPEN\<rparr>))
     = Inr [''ping'']"
    using is_open [of "initial_world\<lparr>ws := Some OPEN\<rparr>" Some "''ping''" "''ping''", OF opened]
    by (simp add: initial_world_def)
  from not_open [OF closed] not_open [OF connecting] c show ?thesis
    by (intro conjI)
qed

end
